theory Spec2Isabelle
  imports Main "HOL-Library.Word" "HOL-Library.AList" "HOL-Library.List_Lexorder"
    "HOL-Library.Product_Lexorder"
begin

section \<open>Data model of the atomic import and export transactions (package evm)\<close>

text \<open>
  Byte strings are lists of 8-bit words. With \<open>List_Lexorder\<close> the order on them is the
  lexicographic one of Go's \<open>bytes.Compare\<close> (a proper prefix is smaller), and with
  \<open>Product_Lexorder\<close> pairs are compared component by component.
  \<open>ids.ID\<close> is a 32-byte array, \<open>common.Address\<close> a 20-byte array.
\<close>

type_synonym byte = "8 word"
type_synonym bytes = "byte list"
type_synonym u32 = "32 word"
type_synonym u64 = "64 word"
type_synonym ID = bytes
type_synonym common_Address = bytes

text \<open>
  Errors are values. The named constructors are the package's sentinel errors;
  \<open>Errorf_w msg err\<close> is \<open>fmt.Errorf(msg + ": %w", err)\<close>, \<open>Errorf msg\<close> a formatted
  error that wraps nothing, \<open>LibError\<close> an error of a library outside the repository, and
  \<open>Panic\<close> a run-time panic (nil dereference, index out of range).
\<close>

datatype error =
    errNilTx
  | errNoImportInputs
  | errNoExportOutputs
  | errWrongNetworkID
  | errWrongBlockchainID
  | errNoEVMOutputs
  | errWrongChainID
  | errInputsNotSortedUnique
  | errOutputsNotSortedUnique
  | errOutputsNotSorted
  | errInsufficientFunds
  | errInvalidNonce
  | errPublicKeySignatureMismatch
  | errAssetIDMismatch
  | errFeeOverflow
  | math_errOverflow
  | axc_errInsufficientFunds
  | Errorf_w string error
  | Errorf string
  | LibError string
  | Panic string

text \<open>The fields of \<open>snow.Context\<close> that the transactions read.\<close>

record Context =
  ctx_NetworkID :: u32
  ChainID :: ID
  SwapChainID :: ID
  AXCAssetID :: ID

text \<open>\<open>params.Rules\<close>: a flat struct of phase flags.\<close>

record Rules =
  IsApricotPhase1 :: bool
  IsApricotPhase2 :: bool
  IsApricotPhase3 :: bool
  IsApricotPhase5 :: bool

text \<open>
  \<open>EVMOutput\<close> and \<open>EVMInput\<close> are separate Go structs sharing their first three fields.
  Record fields are global names in Isabelle, so the shared fields live in one parent
  record and \<open>EVMInput\<close> adds \<open>Nonce\<close>.
\<close>

record EVMOutput =
  Address :: common_Address
  Amount :: u64
  AssetID :: ID

record EVMInput = EVMOutput +
  Nonce :: u64

text \<open>
  The library's UTXO types. \<open>axc.Asset\<close> is embedded in inputs, outputs and UTXOs. The
  \<open>In\<close> and \<open>Out\<close> interfaces are modelled by their secp256k1fx implementations, the only
  ones the repository constructs.
\<close>

record Asset =
  ID :: ID

record UTXOID =
  TxID :: ID
  OutputIndex :: u32

record TransferInput =
  Amt :: u64
  SigIndices :: "u32 list"

record TransferOutput =
  out_Amt :: u64
  Locktime :: u64
  Threshold :: u32
  Addrs :: "bytes list"

record TransferableInput = Asset +
  UTXOID :: UTXOID
  In :: TransferInput

record TransferableOutput = Asset +
  Out :: TransferOutput

record UTXO = Asset +
  utxo_UTXOID :: UTXOID
  utxo_Out :: TransferOutput

text \<open>
  The two unsigned transactions share \<open>NetworkID\<close>, \<open>BlockchainID\<close> and the embedded
  \<open>axc.Metadata\<close> (of which only the unsigned bytes are read). Slices of pointers are
  lists of options: \<open>None\<close> is a nil pointer.
\<close>

record AtomicTxBase =
  unsignedBytes :: bytes
  NetworkID :: u32
  BlockchainID :: ID

record UnsignedImportTx = AtomicTxBase +
  SourceChain :: ID
  ImportedInputs :: "TransferableInput option list"
  Outs :: "EVMOutput list"

record UnsignedExportTx = AtomicTxBase +
  DestinationChain :: ID
  Ins :: "EVMInput list"
  ExportedOutputs :: "TransferableOutput option list"

text \<open>
  A signed transaction pairs an unsigned one with its credentials. \<open>UnsignedAtomicTx\<close> is
  an interface with the two transactions as implementations. A credential is a value of
  the interface \<open>verify.Verifiable\<close>: a \<open>*secp256k1fx.Credential\<close> with its signatures,
  a nil pointer of that type, or anything else (another dynamic type, or the nil
  interface). A recovered public key is likewise either a \<open>*crypto.PublicKeySECP256K1R\<close>
  or something else.
\<close>

datatype UnsignedAtomicTx =
    ImportTx UnsignedImportTx
  | ExportTx UnsignedExportTx

datatype Credential =
    secp256k1fx_Credential "bytes list"
  | nil_secp256k1fx_Credential
  | other_Credential

datatype PublicKey =
    PublicKeySECP256K1R bytes
  | other_PublicKey

record Tx =
  UnsignedAtomicTx :: UnsignedAtomicTx
  Creds :: "Credential list"

text \<open>
  Functions and constants that the transactions call and whose bodies are not among the
  sources (library code, or helpers of tx.go) are parameters, collected in one record.
    \<^item> \<open>SameSubnet\<close>, \<open>SameAllychain\<close>: the library's peer-chain checks;
    \<^item> \<open>EVMOutput_Verify\<close>, \<open>EVMInput_Verify\<close>: \<open>out.Verify()\<close>, \<open>in.Verify()\<close> of tx.go;
    \<^item> \<open>TransferableInput_Verify\<close>, \<open>TransferableOutput_Verify\<close>: the library's \<open>Verify\<close>
      methods, which are called on the pointer and so also see nil;
    \<^item> the library's sortedness predicates and \<open>IsSortedAndUniqueEVMInputs\<close> of tx.go;
    \<^item> \<open>PlatformChainID\<close>: \<open>constants.PlatformChainID\<close>;
    \<^item> \<open>calcBytesCost\<close>: tx.go's byte cost of a serialisation of the given length;
    \<^item> \<open>In_Cost\<close>: \<open>in.In.Cost()\<close>; \<open>InputID\<close>: \<open>UTXOID.InputID()\<close>;
    \<^item> \<open>dynamicFee\<close>: tx.go's \<open>calculateDynamicFee\<close>, as the semantic verifiers call it;
    \<^item> \<open>Credential_Verify\<close>: the library's \<open>cred.Verify()\<close>;
    \<^item> \<open>PublicKeyToEthAddress\<close>: the address of a recovered public key;
    \<^item> \<open>CostPerSignature\<close> (secp256k1fx), \<open>AtomicTxBaseCost\<close> and \<open>AxiaAtomicTxFee\<close>
      (params): protocol constants.
\<close>

record Lib =
  SameSubnet :: "Context \<Rightarrow> ID \<Rightarrow> error option"
  SameAllychain :: "Context \<Rightarrow> ID \<Rightarrow> error option"
  EVMOutput_Verify :: "EVMOutput \<Rightarrow> error option"
  EVMInput_Verify :: "EVMInput \<Rightarrow> error option"
  TransferableInput_Verify :: "TransferableInput option \<Rightarrow> error option"
  TransferableOutput_Verify :: "TransferableOutput option \<Rightarrow> error option"
  IsSortedAndUniqueTransferableInputs :: "TransferableInput option list \<Rightarrow> bool"
  IsSortedTransferableOutputs :: "TransferableOutput option list \<Rightarrow> bool"
  IsSortedAndUniqueEVMInputs :: "EVMInput list \<Rightarrow> bool"
  PlatformChainID :: ID
  calcBytesCost :: "nat \<Rightarrow> u64"
  In_Cost :: "TransferInput \<Rightarrow> error + u64"
  InputID :: "UTXOID \<Rightarrow> ID"
  dynamicFee :: "u64 \<Rightarrow> int \<Rightarrow> error + u64"
  Credential_Verify :: "Credential \<Rightarrow> error option"
  PublicKeyToEthAddress :: "bytes \<Rightarrow> common_Address"
  CostPerSignature :: u64
  AtomicTxBaseCost :: u64
  AxiaAtomicTxFee :: u64

section \<open>Sorting validators for EVM outputs\<close>

text \<open>
  Modelled from the spec: \<open>IsSortedEVMOutputs\<close> and \<open>IsSortedAndUniqueEVMOutputs\<close> live in
  tx.go, which is not among the sources. The spec gives the canonical key of an EVM output
  as \<open>(address bytes, assetID bytes)\<close>, compared lexicographically, and the policies
  "sorted" (duplicates permitted) and "sorted and unique". Both predicates run over the
  adjacent pairs of the slice.
\<close>

definition EVMOutput_key :: "EVMOutput \<Rightarrow> bytes \<times> bytes" where
  "EVMOutput_key out = (Address out, AssetID out)"

definition EVMOutput_Less :: "EVMOutput \<Rightarrow> EVMOutput \<Rightarrow> bool" where
  "EVMOutput_Less a b = (EVMOutput_key a < EVMOutput_key b)"

fun IsSortedEVMOutputs :: "EVMOutput list \<Rightarrow> bool" where
  "IsSortedEVMOutputs (a # b # outs) = (\<not> EVMOutput_Less b a \<and> IsSortedEVMOutputs (b # outs))"
| "IsSortedEVMOutputs outs = True"

fun IsSortedAndUniqueEVMOutputs :: "EVMOutput list \<Rightarrow> bool" where
  "IsSortedAndUniqueEVMOutputs (a # b # outs) =
     (EVMOutput_Less a b \<and> IsSortedAndUniqueEVMOutputs (b # outs))"
| "IsSortedAndUniqueEVMOutputs outs = True"

section \<open>UnsignedImportTx.Verify\<close>

text \<open>The two verification loops: the first element that fails decides, wrapped.\<close>

fun verify_Outs :: "Lib \<Rightarrow> EVMOutput list \<Rightarrow> error option" where
  "verify_Outs lib [] = None"
| "verify_Outs lib (out # outs) =
     (case EVMOutput_Verify lib out of
        Some err \<Rightarrow> Some (Errorf_w ''EVM Output failed verification'' err)
      | None \<Rightarrow> verify_Outs lib outs)"

fun verify_ImportedInputs :: "Lib \<Rightarrow> TransferableInput option list \<Rightarrow> error option" where
  "verify_ImportedInputs lib [] = None"
| "verify_ImportedInputs lib (inp # ins) =
     (case TransferableInput_Verify lib inp of
        Some err \<Rightarrow> Some (Errorf_w ''atomic input failed verification'' err)
      | None \<Rightarrow> verify_ImportedInputs lib ins)"

text \<open>
  The peer-chain block: under phase 5 the library's \<open>SameSubnet\<close> decides and any error
  of it becomes \<open>errWrongChainID\<close>; before, the source chain must be the swap chain.
\<close>

definition ImportTx_peerChain ::
  "Lib \<Rightarrow> UnsignedImportTx \<Rightarrow> Context \<Rightarrow> Rules \<Rightarrow> error option" where
  "ImportTx_peerChain lib tx ctx rules =
     (if IsApricotPhase5 rules then
        (case SameSubnet lib ctx (SourceChain tx) of
           Some err \<Rightarrow> Some errWrongChainID
         | None \<Rightarrow> None)
      else
        (if SourceChain tx \<noteq> SwapChainID ctx then Some errWrongChainID else None))"

text \<open>
  \<open>Verify\<close> is called on a possibly nil receiver, so the transaction is an option. The
  switch, the peer-chain test, the two loops and the sort checks follow the source in
  order.
\<close>

definition ImportTx_Verify ::
  "Lib \<Rightarrow> UnsignedImportTx option \<Rightarrow> Context \<Rightarrow> Rules \<Rightarrow> error option" where
  "ImportTx_Verify lib txp ctx rules =
     (case txp of
        None \<Rightarrow> Some errNilTx
      | Some tx \<Rightarrow>
          if length (ImportedInputs tx) = 0 then Some errNoImportInputs
          else if NetworkID tx \<noteq> ctx_NetworkID ctx then Some errWrongNetworkID
          else if ChainID ctx \<noteq> BlockchainID tx then Some errWrongBlockchainID
          else if IsApricotPhase3 rules \<and> length (Outs tx) = 0 then Some errNoEVMOutputs
          else
            (case ImportTx_peerChain lib tx ctx rules of
               Some err \<Rightarrow> Some err
             | None \<Rightarrow>
            (case verify_Outs lib (Outs tx) of
               Some err \<Rightarrow> Some err
             | None \<Rightarrow>
                 (case verify_ImportedInputs lib (ImportedInputs tx) of
                    Some err \<Rightarrow> Some err
                  | None \<Rightarrow>
                      if \<not> IsSortedAndUniqueTransferableInputs lib (ImportedInputs tx)
                        then Some errInputsNotSortedUnique
                      else if IsApricotPhase2 rules then
                        (if \<not> IsSortedAndUniqueEVMOutputs (Outs tx)
                           then Some errOutputsNotSortedUnique else None)
                      else if IsApricotPhase1 rules then
                        (if \<not> IsSortedEVMOutputs (Outs tx)
                           then Some errOutputsNotSorted else None)
                      else None))))"

section \<open>Checked 64-bit arithmetic\<close>

text \<open>
  Modelled from the spec: \<open>math.Add64\<close> and \<open>math.Mul64\<close> belong to the network library,
  which is not among the sources. The spec has every addition and multiplication of the
  fee and flow computations checked for 64-bit overflow, overflow being an error and never
  a wrapped value.
\<close>

definition MaxUint64 :: u64 where
  "MaxUint64 = 18446744073709551615"

definition Add64 :: "u64 \<Rightarrow> u64 \<Rightarrow> error + u64" where
  "Add64 a b = (if a > MaxUint64 - b then Inl math_errOverflow else Inr (a + b))"

definition Mul64 :: "u64 \<Rightarrow> u64 \<Rightarrow> error + u64" where
  "Mul64 a b = (if b \<noteq> 0 \<and> a > MaxUint64 div b then Inl math_errOverflow else Inr (a * b))"

section \<open>GasUsed\<close>

text \<open>
  \<open>UnsignedExportTx.GasUsed\<close>: the byte cost of the unsigned bytes, one signature per
  input, and the fixed base cost when \<open>fixedFee\<close> is set. \<open>uint64(len(tx.Ins))\<close> is the
  conversion of a slice length.
\<close>

definition ExportTx_GasUsed :: "Lib \<Rightarrow> UnsignedExportTx \<Rightarrow> bool \<Rightarrow> error + u64" where
  "ExportTx_GasUsed lib tx fixedFee =
     (let byteCost = calcBytesCost lib (length (unsignedBytes tx));
          numSigs = (of_nat (length (Ins tx)) :: u64)
      in case Mul64 numSigs (CostPerSignature lib) of
           Inl err \<Rightarrow> Inl err
         | Inr sigCost \<Rightarrow>
             (case Add64 byteCost sigCost of
                Inl err \<Rightarrow> Inl err
              | Inr cost \<Rightarrow>
                  if fixedFee then
                    (case Add64 cost (AtomicTxBaseCost lib) of
                       Inl err \<Rightarrow> Inl err
                     | Inr cost' \<Rightarrow> Inr cost')
                  else Inr cost))"

text \<open>
  \<open>UnsignedImportTx.GasUsed\<close>: the byte cost plus the cost of every input. Reading
  \<open>in.In\<close> through a nil input panics.
\<close>

fun import_inputs_cost :: "Lib \<Rightarrow> TransferableInput option list \<Rightarrow> u64 \<Rightarrow> error + u64" where
  "import_inputs_cost lib [] cost = Inr cost"
| "import_inputs_cost lib (inp # ins) cost =
     (case inp of
        None \<Rightarrow> Inl (Panic ''nil TransferableInput'')
      | Some i \<Rightarrow>
          (case In_Cost lib (In i) of
             Inl err \<Rightarrow> Inl err
           | Inr inCost \<Rightarrow>
               (case Add64 cost inCost of
                  Inl err \<Rightarrow> Inl err
                | Inr cost' \<Rightarrow> import_inputs_cost lib ins cost')))"

definition ImportTx_GasUsed :: "Lib \<Rightarrow> UnsignedImportTx \<Rightarrow> bool \<Rightarrow> error + u64" where
  "ImportTx_GasUsed lib tx fixedFee =
     (case import_inputs_cost lib (ImportedInputs tx)
             (calcBytesCost lib (length (unsignedBytes tx))) of
        Inl err \<Rightarrow> Inl err
      | Inr cost \<Rightarrow>
          if fixedFee then
            (case Add64 cost (AtomicTxBaseCost lib) of
               Inl err \<Rightarrow> Inl err
             | Inr cost' \<Rightarrow> Inr cost')
          else Inr cost)"

text \<open>\<open>stx.GasUsed\<close> is the method of the unsigned transaction that the signed one embeds.\<close>

definition Tx_GasUsed :: "Lib \<Rightarrow> Tx \<Rightarrow> bool \<Rightarrow> error + u64" where
  "Tx_GasUsed lib stx fixedFee =
     (case UnsignedAtomicTx stx of
        ImportTx tx \<Rightarrow> ImportTx_GasUsed lib tx fixedFee
      | ExportTx tx \<Rightarrow> ExportTx_GasUsed lib tx fixedFee)"

section \<open>The dynamic fee\<close>





text \<open>
  Modelled from the spec: \<open>x2cRate\<close> is the spec's "fixed multiplicative rate" by which an
  amount of the native asset is scaled into the ledger's base unit; its declaration is
  not among the sources. The value is the ratio \<open>10^9\<close> of the two units.
\<close>

definition x2cRate :: int where
  "x2cRate = 1000000000"

section \<open>The flow checker\<close>

text \<open>
  Modelled from the spec: \<open>axc.FlowChecker\<close> belongs to the network library, which is not
  among the sources. The spec gives it two per-asset accumulators, "produced" and
  "consumed", filled by \<open>Produce\<close> and \<open>Consume\<close> with overflow-checked additions, and a
  \<open>Verify\<close> that fails when an addition overflowed or when some asset has produced more
  than it has consumed. The accumulators are association lists read with default 0; the
  first error is the one kept.
\<close>

record FlowChecker =
  consumed :: "(ID \<times> u64) list"
  produced :: "(ID \<times> u64) list"
  errs :: "error option"

definition NewFlowChecker :: FlowChecker where
  "NewFlowChecker = \<lparr>consumed = [], produced = [], errs = None\<rparr>"

definition amount_of :: "(ID \<times> u64) list \<Rightarrow> ID \<Rightarrow> u64" where
  "amount_of m assetID = (case map_of m assetID of None \<Rightarrow> 0 | Some v \<Rightarrow> v)"

definition errs_Add :: "error option \<Rightarrow> error option \<Rightarrow> error option" where
  "errs_Add es err = (case es of None \<Rightarrow> err | Some e \<Rightarrow> Some e)"

definition fc_add :: "(ID \<times> u64) list \<Rightarrow> ID \<Rightarrow> u64 \<Rightarrow> (ID \<times> u64) list \<times> error option" where
  "fc_add m assetID amount =
     (case Add64 (amount_of m assetID) amount of
        Inl err \<Rightarrow> (AList.update assetID 0 m, Some err)
      | Inr v \<Rightarrow> (AList.update assetID v m, None))"

definition Produce :: "FlowChecker \<Rightarrow> ID \<Rightarrow> u64 \<Rightarrow> FlowChecker" where
  "Produce fc assetID amount =
     (case fc_add (produced fc) assetID amount of
        (m, err) \<Rightarrow> fc\<lparr>produced := m, errs := errs_Add (errs fc) err\<rparr>)"

definition Consume :: "FlowChecker \<Rightarrow> ID \<Rightarrow> u64 \<Rightarrow> FlowChecker" where
  "Consume fc assetID amount =
     (case fc_add (consumed fc) assetID amount of
        (m, err) \<Rightarrow> fc\<lparr>consumed := m, errs := errs_Add (errs fc) err\<rparr>)"

definition FlowChecker_Verify :: "FlowChecker \<Rightarrow> error option" where
  "FlowChecker_Verify fc =
     (case errs fc of
        Some err \<Rightarrow> Some err
      | None \<Rightarrow>
          if list_ex (\<lambda>(assetID, producedAmount). producedAmount > amount_of (consumed fc) assetID)
               (produced fc)
          then Some axc_errInsufficientFunds
          else None)"

section \<open>UnsignedImportTx.SemanticVerify\<close>

text \<open>
  The fields of the VM that the semantic verifiers use: the chain context, the
  bootstrapped flag, and the collaborators (shared memory, codec, fx, the conflict check
  over the ancestry of a block, public-key recovery), which are functions of the
  environment. The type of blocks is left open.
\<close>

record 'b VM =
  vm_ctx :: Context
  bootstrapped :: bool
  SharedMemory_Get :: "ID \<Rightarrow> bytes list \<Rightarrow> error + bytes list"
  codec_Unmarshal :: "bytes \<Rightarrow> error + UTXO"
  fx_VerifyTransfer ::
    "UnsignedImportTx \<Rightarrow> TransferInput \<Rightarrow> Credential \<Rightarrow> TransferOutput \<Rightarrow> error option"
  conflicts :: "ID set \<Rightarrow> 'b \<Rightarrow> error option"
  RecoverPublicKey :: "bytes \<Rightarrow> bytes \<Rightarrow> error + PublicKey"

text \<open>
  The fee switch of the import: the dynamic fee as of phase 3, the flat fee as of
  phase 2, and no case for the earlier phases.
\<close>

definition import_produce_fee ::
  "Lib \<Rightarrow> Context \<Rightarrow> Tx \<Rightarrow> int \<Rightarrow> Rules \<Rightarrow> FlowChecker \<Rightarrow> error + FlowChecker" where
  "import_produce_fee lib ctx stx baseFee rules fc =
     (if IsApricotPhase3 rules then
        (case Tx_GasUsed lib stx (IsApricotPhase5 rules) of
           Inl err \<Rightarrow> Inl err
         | Inr gasUsed \<Rightarrow>
             (case dynamicFee lib gasUsed baseFee of
                Inl err \<Rightarrow> Inl err
              | Inr txFee \<Rightarrow> Inr (Produce fc (AXCAssetID ctx) txFee)))
      else if IsApricotPhase2 rules then
        Inr (Produce fc (AXCAssetID ctx) (AxiaAtomicTxFee lib))
      else Inr fc)"

fun produce_Outs :: "FlowChecker \<Rightarrow> EVMOutput list \<Rightarrow> FlowChecker" where
  "produce_Outs fc [] = fc"
| "produce_Outs fc (out # outs) = produce_Outs (Produce fc (AssetID out) (Amount out)) outs"

fun consume_ImportedInputs ::
  "FlowChecker \<Rightarrow> TransferableInput option list \<Rightarrow> error + FlowChecker" where
  "consume_ImportedInputs fc [] = Inr fc"
| "consume_ImportedInputs fc (inp # ins) =
     (case inp of
        None \<Rightarrow> Inl (Panic ''nil TransferableInput'')
      | Some i \<Rightarrow> consume_ImportedInputs (Consume fc (ID i) (Amt (In i))) ins)"

text \<open>The input IDs of the imported inputs, in order; a nil input panics.\<close>

fun input_IDs :: "Lib \<Rightarrow> TransferableInput option list \<Rightarrow> error + ID list" where
  "input_IDs lib [] = Inr []"
| "input_IDs lib (inp # ins) =
     (case inp of
        None \<Rightarrow> Inl (Panic ''nil TransferableInput'')
      | Some i \<Rightarrow>
          (case input_IDs lib ins of
             Inl err \<Rightarrow> Inl err
           | Inr utxoIDs \<Rightarrow> Inr (InputID lib (UTXOID i) # utxoIDs)))"

text \<open>
  The loop over the fetched UTXOs: entry \<open>i\<close> of the fetched bytes and credential \<open>i\<close>
  belong to input \<open>i\<close>; indexing past the end of a slice panics.
\<close>

fun import_verify_UTXOs ::
  "'b VM \<Rightarrow> UnsignedImportTx \<Rightarrow> TransferableInput option list \<Rightarrow> Credential list \<Rightarrow>
   bytes list \<Rightarrow> error option" where
  "import_verify_UTXOs vm tx [] creds allUTXOBytes = None"
| "import_verify_UTXOs vm tx (inp # ins) creds allUTXOBytes =
     (case allUTXOBytes of
        [] \<Rightarrow> Some (Panic ''index out of range'')
      | utxoBytes # restBytes \<Rightarrow>
          (case codec_Unmarshal vm utxoBytes of
             Inl err \<Rightarrow> Some (Errorf_w ''failed to unmarshal UTXO'' err)
           | Inr utxo \<Rightarrow>
               (case creds of
                  [] \<Rightarrow> Some (Panic ''index out of range'')
                | cred # restCreds \<Rightarrow>
                    (case inp of
                       None \<Rightarrow> Some (Panic ''nil TransferableInput'')
                     | Some i \<Rightarrow>
                         if ID utxo \<noteq> ID i then Some errAssetIDMismatch
                         else
                           (case fx_VerifyTransfer vm tx (In i) cred (utxo_Out utxo) of
                              Some err \<Rightarrow>
                                Some (Errorf_w ''import tx transfer failed verification'' err)
                            | None \<Rightarrow> import_verify_UTXOs vm tx ins restCreds restBytes)))))"

text \<open>The part of \<open>SemanticVerify\<close> that runs only on a bootstrapped node.\<close>

definition import_verify_shared ::
  "Lib \<Rightarrow> 'b VM \<Rightarrow> UnsignedImportTx \<Rightarrow> Tx \<Rightarrow> 'b \<Rightarrow> error option" where
  "import_verify_shared lib vm tx stx parent =
     (case input_IDs lib (ImportedInputs tx) of
        Inl err \<Rightarrow> Some err
      | Inr utxoIDs \<Rightarrow>
          (case SharedMemory_Get vm (SourceChain tx) utxoIDs of
             Inl err \<Rightarrow> Some (Errorf_w ''failed to fetch import UTXOs'' err)
           | Inr allUTXOBytes \<Rightarrow>
               (case import_verify_UTXOs vm tx (ImportedInputs tx) (Creds stx) allUTXOBytes of
                  Some err \<Rightarrow> Some err
                | None \<Rightarrow> conflicts vm (set utxoIDs) parent)))"

text \<open>
  The flow of an import: on a fresh checker the fee is produced first, then every output
  is produced and every input consumed.
\<close>

definition ImportTx_flow ::
  "Lib \<Rightarrow> Context \<Rightarrow> UnsignedImportTx \<Rightarrow> Tx \<Rightarrow> int \<Rightarrow> Rules \<Rightarrow> error + FlowChecker" where
  "ImportTx_flow lib ctx tx stx baseFee rules =
     (case import_produce_fee lib ctx stx baseFee rules NewFlowChecker of
        Inl err \<Rightarrow> Inl err
      | Inr fc0 \<Rightarrow> consume_ImportedInputs (produce_Outs fc0 (Outs tx)) (ImportedInputs tx))"

definition ImportTx_SemanticVerify ::
  "Lib \<Rightarrow> 'b VM \<Rightarrow> UnsignedImportTx option \<Rightarrow> Tx \<Rightarrow> 'b \<Rightarrow> int \<Rightarrow> Rules \<Rightarrow> error option" where
  "ImportTx_SemanticVerify lib vm txp stx parent baseFee rules =
     (case ImportTx_Verify lib txp (vm_ctx vm) rules of
        Some err \<Rightarrow> Some err
      | None \<Rightarrow>
          (case txp of
             None \<Rightarrow> Some (Panic ''nil UnsignedImportTx'')
           | Some tx \<Rightarrow>
               (case ImportTx_flow lib (vm_ctx vm) tx stx baseFee rules of
                  Inl err \<Rightarrow> Some err
                | Inr fc \<Rightarrow>
                    (case FlowChecker_Verify fc of
                       Some err \<Rightarrow> Some (Errorf_w ''import tx flow check failed due to'' err)
                     | None \<Rightarrow>
                         if length (Creds stx) \<noteq> length (ImportedInputs tx) then
                           Some (Errorf
                             ''import tx contained mismatched number of inputs/credentials'')
                         else if \<not> bootstrapped vm then None
                         else import_verify_shared lib vm tx stx parent))))"

section \<open>UnsignedImportTx.AtomicOps\<close>

text \<open>
  \<open>atomic.Requests\<close> with its remove and put lists; an element to put is a key, a value
  and its traits. The Go function returns a triple whose last component is the error;
  the outer sum keeps the panic of a nil input apart from it.
\<close>

record Element =
  Key :: bytes
  Value :: bytes
  Traits :: "bytes list"

record Requests =
  RemoveRequests :: "bytes list"
  PutRequests :: "Element list"

definition ImportTx_AtomicOps ::
  "Lib \<Rightarrow> UnsignedImportTx \<Rightarrow> error + (ID \<times> Requests \<times> error option)" where
  "ImportTx_AtomicOps lib tx =
     (case input_IDs lib (ImportedInputs tx) of
        Inl err \<Rightarrow> Inl err
      | Inr utxoIDs \<Rightarrow>
          Inr (SourceChain tx, \<lparr>RemoveRequests = utxoIDs, PutRequests = []\<rparr>, None))"

section \<open>UnsignedExportTx.Verify\<close>

definition ExportTx_peerChain ::
  "Lib \<Rightarrow> UnsignedExportTx \<Rightarrow> Context \<Rightarrow> Rules \<Rightarrow> error option" where
  "ExportTx_peerChain lib tx ctx rules =
     (if IsApricotPhase5 rules then
        (case SameAllychain lib ctx (DestinationChain tx) of
           Some err \<Rightarrow> Some errWrongChainID
         | None \<Rightarrow> None)
      else
        (if DestinationChain tx \<noteq> SwapChainID ctx then Some errWrongChainID else None))"

fun verify_Ins :: "Lib \<Rightarrow> EVMInput list \<Rightarrow> error option" where
  "verify_Ins lib [] = None"
| "verify_Ins lib (inp # ins) =
     (case EVMInput_Verify lib inp of
        Some err \<Rightarrow> Some err
      | None \<Rightarrow> verify_Ins lib ins)"

text \<open>
  The loop over the exported outputs: the library's \<open>Verify\<close> first, then the asset test
  for the platform chain. \<open>out.AssetID()\<close> on a nil output that \<open>Verify\<close> let through
  panics.
\<close>

fun verify_ExportedOutputs ::
  "Lib \<Rightarrow> Context \<Rightarrow> ID \<Rightarrow> TransferableOutput option list \<Rightarrow> error option" where
  "verify_ExportedOutputs lib ctx dest [] = None"
| "verify_ExportedOutputs lib ctx dest (out # outs) =
     (case TransferableOutput_Verify lib out of
        Some err \<Rightarrow> Some err
      | None \<Rightarrow>
          (case out of
             None \<Rightarrow> Some (Panic ''nil TransferableOutput'')
           | Some out' \<Rightarrow>
               if ID out' \<noteq> AXCAssetID ctx \<and> dest = PlatformChainID lib
               then Some errWrongChainID
               else verify_ExportedOutputs lib ctx dest outs))"

definition ExportTx_Verify ::
  "Lib \<Rightarrow> UnsignedExportTx option \<Rightarrow> Context \<Rightarrow> Rules \<Rightarrow> error option" where
  "ExportTx_Verify lib txp ctx rules =
     (case txp of
        None \<Rightarrow> Some errNilTx
      | Some tx \<Rightarrow>
          if length (ExportedOutputs tx) = 0 then Some errNoExportOutputs
          else if NetworkID tx \<noteq> ctx_NetworkID ctx then Some errWrongNetworkID
          else if ChainID ctx \<noteq> BlockchainID tx then Some errWrongBlockchainID
          else
            (case ExportTx_peerChain lib tx ctx rules of
               Some err \<Rightarrow> Some err
             | None \<Rightarrow>
            (case verify_Ins lib (Ins tx) of
               Some err \<Rightarrow> Some err
             | None \<Rightarrow>
                 (case verify_ExportedOutputs lib ctx (DestinationChain tx) (ExportedOutputs tx) of
                    Some err \<Rightarrow> Some err
                  | None \<Rightarrow>
                      if \<not> IsSortedTransferableOutputs lib (ExportedOutputs tx)
                        then Some errOutputsNotSorted
                      else if IsApricotPhase1 rules \<and> \<not> IsSortedAndUniqueEVMInputs lib (Ins tx)
                        then Some errInputsNotSortedUnique
                      else None))))"

section \<open>UnsignedExportTx.SemanticVerify\<close>

text \<open>The fee switch of the export: the dynamic fee as of phase 3, the flat fee by default.\<close>

definition export_produce_fee ::
  "Lib \<Rightarrow> Context \<Rightarrow> Tx \<Rightarrow> int \<Rightarrow> Rules \<Rightarrow> FlowChecker \<Rightarrow> error + FlowChecker" where
  "export_produce_fee lib ctx stx baseFee rules fc =
     (if IsApricotPhase3 rules then
        (case Tx_GasUsed lib stx (IsApricotPhase5 rules) of
           Inl err \<Rightarrow> Inl err
         | Inr gasUsed \<Rightarrow>
             (case dynamicFee lib gasUsed baseFee of
                Inl err \<Rightarrow> Inl err
              | Inr txFee \<Rightarrow> Inr (Produce fc (AXCAssetID ctx) txFee)))
      else Inr (Produce fc (AXCAssetID ctx) (AxiaAtomicTxFee lib)))"

fun produce_ExportedOutputs ::
  "FlowChecker \<Rightarrow> TransferableOutput option list \<Rightarrow> error + FlowChecker" where
  "produce_ExportedOutputs fc [] = Inr fc"
| "produce_ExportedOutputs fc (out # outs) =
     (case out of
        None \<Rightarrow> Inl (Panic ''nil TransferableOutput'')
      | Some out' \<Rightarrow> produce_ExportedOutputs (Produce fc (ID out') (out_Amt (Out out'))) outs)"

fun consume_Ins :: "FlowChecker \<Rightarrow> EVMInput list \<Rightarrow> FlowChecker" where
  "consume_Ins fc [] = fc"
| "consume_Ins fc (inp # ins) = consume_Ins (Consume fc (AssetID inp) (Amount inp)) ins"

text \<open>
  The credential of one input: it must be a \<open>*secp256k1fx.Credential\<close>, pass the
  library's \<open>Verify\<close>, hold exactly one signature, and the public key recovered from the
  unsigned bytes and that signature must be a secp256k1 key whose address is the
  input's.
\<close>

definition export_verify_cred ::
  "Lib \<Rightarrow> 'b VM \<Rightarrow> UnsignedExportTx \<Rightarrow> EVMInput \<Rightarrow> Credential \<Rightarrow> error option" where
  "export_verify_cred lib vm tx input cred =
     (case cred of
        other_Credential \<Rightarrow> Some (Errorf ''expected *secp256k1fx.Credential but got %T'')
      | _ \<Rightarrow>
          (case Credential_Verify lib cred of
             Some err \<Rightarrow> Some err
           | None \<Rightarrow>
               (case cred of
                  secp256k1fx_Credential sigs \<Rightarrow>
                    (case sigs of
                       [sig] \<Rightarrow>
                         (case RecoverPublicKey vm (unsignedBytes tx) sig of
                            Inl err \<Rightarrow> Some err
                          | Inr pubKeyIntf \<Rightarrow>
                              (case pubKeyIntf of
                                 PublicKeySECP256K1R pubKey \<Rightarrow>
                                   if Address input \<noteq> PublicKeyToEthAddress lib pubKey
                                   then Some errPublicKeySignatureMismatch
                                   else None
                               | other_PublicKey \<Rightarrow>
                                   Some (Errorf
                                     ''expected *crypto.PublicKeySECP256K1R but got %T'')))
                     | _ \<Rightarrow>
                         Some (Errorf
                           ''expected one signature for EVM Input Credential, but found: %d''))
                | _ \<Rightarrow> Some (Panic ''nil secp256k1fx.Credential''))))"

fun export_verify_creds ::
  "Lib \<Rightarrow> 'b VM \<Rightarrow> UnsignedExportTx \<Rightarrow> EVMInput list \<Rightarrow> Credential list \<Rightarrow> error option" where
  "export_verify_creds lib vm tx [] creds = None"
| "export_verify_creds lib vm tx (input # ins) creds =
     (case creds of
        [] \<Rightarrow> Some (Panic ''index out of range'')
      | cred # restCreds \<Rightarrow>
          (case export_verify_cred lib vm tx input cred of
             Some err \<Rightarrow> Some err
           | None \<Rightarrow> export_verify_creds lib vm tx ins restCreds))"

definition ExportTx_SemanticVerify ::
  "Lib \<Rightarrow> 'b VM \<Rightarrow> UnsignedExportTx option \<Rightarrow> Tx \<Rightarrow> int \<Rightarrow> Rules \<Rightarrow> error option" where
  "ExportTx_SemanticVerify lib vm txp stx baseFee rules =
     (case ExportTx_Verify lib txp (vm_ctx vm) rules of
        Some err \<Rightarrow> Some err
      | None \<Rightarrow>
          (case txp of
             None \<Rightarrow> Some (Panic ''nil UnsignedExportTx'')
           | Some tx \<Rightarrow>
               (case export_produce_fee lib (vm_ctx vm) stx baseFee rules NewFlowChecker of
                  Inl err \<Rightarrow> Some err
                | Inr fc0 \<Rightarrow>
                    (case produce_ExportedOutputs fc0 (ExportedOutputs tx) of
                       Inl err \<Rightarrow> Some err
                     | Inr fc1 \<Rightarrow>
                         (case FlowChecker_Verify (consume_Ins fc1 (Ins tx)) of
                            Some err \<Rightarrow> Some (Errorf_w ''export tx flow check failed due to'' err)
                          | None \<Rightarrow>
                              if length (Ins tx) \<noteq> length (Creds stx) then
                                Some (Errorf
                                  ''export tx contained mismatched number of inputs/credentials'')
                              else export_verify_creds lib vm tx (Ins tx) (Creds stx))))))"

section \<open>UnsignedExportTx.EVMStateTransfer\<close>

text \<open>
  Modelled from the spec: \<open>state.StateDB\<close> lives in core/state, which is not among the
  sources. The spec treats the ledger as a key-value store with balance get, add and sub,
  a multi-asset balance keyed by address and asset, and nonce get and set. Balances are
  big integers.
\<close>

record StateDB =
  balance :: "common_Address \<Rightarrow> int"
  balanceMultiCoin :: "common_Address \<Rightarrow> ID \<Rightarrow> int"
  nonce :: "common_Address \<Rightarrow> u64"

definition GetBalance :: "StateDB \<Rightarrow> common_Address \<Rightarrow> int" where
  "GetBalance state addr = balance state addr"

definition SubBalance :: "StateDB \<Rightarrow> common_Address \<Rightarrow> int \<Rightarrow> StateDB" where
  "SubBalance state addr amount = state\<lparr>balance := (balance state)(addr := balance state addr - amount)\<rparr>"

definition GetBalanceMultiCoin :: "StateDB \<Rightarrow> common_Address \<Rightarrow> ID \<Rightarrow> int" where
  "GetBalanceMultiCoin state addr coinID = balanceMultiCoin state addr coinID"

definition SubBalanceMultiCoin :: "StateDB \<Rightarrow> common_Address \<Rightarrow> ID \<Rightarrow> int \<Rightarrow> StateDB" where
  "SubBalanceMultiCoin state addr coinID amount =
     state\<lparr>balanceMultiCoin :=
       (balanceMultiCoin state)(addr := (balanceMultiCoin state addr)
          (coinID := balanceMultiCoin state addr coinID - amount))\<rparr>"

definition GetNonce :: "StateDB \<Rightarrow> common_Address \<Rightarrow> u64" where
  "GetNonce state addr = nonce state addr"

definition SetNonce :: "StateDB \<Rightarrow> common_Address \<Rightarrow> u64 \<Rightarrow> StateDB" where
  "SetNonce state addr n = state\<lparr>nonce := (nonce state)(addr := n)\<rparr>"

text \<open>
  The debit of one input: the native asset is scaled by \<open>x2cRate\<close> and taken from the
  balance, any other asset is taken from the multi-asset balance; either fails when the
  balance is smaller than the amount.
\<close>

definition export_debit :: "Context \<Rightarrow> EVMInput \<Rightarrow> StateDB \<Rightarrow> error + StateDB" where
  "export_debit ctx from state =
     (if AssetID from = AXCAssetID ctx then
        (let amount = uint (Amount from) * x2cRate
         in if GetBalance state (Address from) < amount then Inl errInsufficientFunds
            else Inr (SubBalance state (Address from) amount))
      else
        (let amount = uint (Amount from)
         in if GetBalanceMultiCoin state (Address from) (AssetID from) < amount
            then Inl errInsufficientFunds
            else Inr (SubBalanceMultiCoin state (Address from) (AssetID from) amount)))"

text \<open>
  The loop over the inputs. The state object is mutated in place, so the model returns
  the state as the call leaves it together with the error, also when the call fails. Each
  input is debited first and its nonce is compared afterwards; \<open>addrs\<close> collects the
  claimed nonce per address.
\<close>

fun export_transfer_loop ::
  "Context \<Rightarrow> EVMInput list \<Rightarrow> StateDB \<Rightarrow> (common_Address \<rightharpoonup> u64) \<Rightarrow>
   error option \<times> StateDB \<times> (common_Address \<rightharpoonup> u64)" where
  "export_transfer_loop ctx [] state addrs = (None, state, addrs)"
| "export_transfer_loop ctx (from # ins) state addrs =
     (case export_debit ctx from state of
        Inl err \<Rightarrow> (Some err, state, addrs)
      | Inr state' \<Rightarrow>
          if GetNonce state' (Address from) \<noteq> Nonce from then
            (Some errInvalidNonce, state', addrs)
          else export_transfer_loop ctx ins state' (addrs(Address from \<mapsto> Nonce from)))"

text \<open>
  After the loop \<open>state.SetNonce(addr, nonce+1)\<close> runs for every entry of \<open>addrs\<close>. The
  writes are to distinct addresses, so the order of Go's map iteration does not matter
  and the result is the state with all of them made at once.
\<close>

definition set_nonces :: "(common_Address \<rightharpoonup> u64) \<Rightarrow> StateDB \<Rightarrow> StateDB" where
  "set_nonces addrs state =
     state\<lparr>nonce := (\<lambda>addr. case addrs addr of None \<Rightarrow> nonce state addr | Some n \<Rightarrow> n + 1)\<rparr>"

definition ExportTx_EVMStateTransfer ::
  "UnsignedExportTx \<Rightarrow> Context \<Rightarrow> StateDB \<Rightarrow> error option \<times> StateDB" where
  "ExportTx_EVMStateTransfer tx ctx state =
     (case export_transfer_loop ctx (Ins tx) state Map.empty of
        (Some err, state', addrs) \<Rightarrow> (Some err, state')
      | (None, state', addrs) \<Rightarrow> (None, set_nonces addrs state'))"

section \<open>Specification-side quantities\<close>

text \<open>
  The gas of an export as the specification words it, over the natural numbers: byte
  cost, plus the number of inputs times the cost per signature, plus the fixed base cost
  exactly when \<open>fixedFee\<close> is set.
\<close>

definition ExportTx_gas_total :: "Lib \<Rightarrow> UnsignedExportTx \<Rightarrow> bool \<Rightarrow> nat" where
  "ExportTx_gas_total lib tx fixedFee =
     unat (calcBytesCost lib (length (unsignedBytes tx)))
     + length (Ins tx) * unat (CostPerSignature lib)
     + (if fixedFee then unat (AtomicTxBaseCost lib) else 0)"

text \<open>
  The checks of \<open>UnsignedImportTx.Verify\<close> as the specification lists them, each one the
  error it yields or \<open>None\<close> when it passes, in the specification's order (the nil test of
  the receiver comes before them): non-empty imported inputs, network ID, blockchain ID,
  mandatory outputs (phase 3), source-chain legality, per-output verification, per-input
  verification, inputs sorted and unique, and the phase-gated output sort policy.
  \<open>first_failure\<close> is "first failure wins".
\<close>

fun first_failure :: "error option list \<Rightarrow> error option" where
  "first_failure [] = None"
| "first_failure (Some err # checks) = Some err"
| "first_failure (None # checks) = first_failure checks"

definition check :: "bool \<Rightarrow> error \<Rightarrow> error option" where
  "check failing err = (if failing then Some err else None)"

definition ImportTx_checks :: "Lib \<Rightarrow> UnsignedImportTx \<Rightarrow> Context \<Rightarrow> Rules \<Rightarrow> error option list" where
  "ImportTx_checks lib tx ctx rules =
     [check (ImportedInputs tx = []) errNoImportInputs,
      check (NetworkID tx \<noteq> ctx_NetworkID ctx) errWrongNetworkID,
      check (BlockchainID tx \<noteq> ChainID ctx) errWrongBlockchainID,
      check (IsApricotPhase3 rules \<and> Outs tx = []) errNoEVMOutputs,
      check (if IsApricotPhase5 rules then SameSubnet lib ctx (SourceChain tx) \<noteq> None
             else SourceChain tx \<noteq> SwapChainID ctx) errWrongChainID,
      map_option (Errorf_w ''EVM Output failed verification'')
        (first_failure (map (EVMOutput_Verify lib) (Outs tx))),
      map_option (Errorf_w ''atomic input failed verification'')
        (first_failure (map (TransferableInput_Verify lib) (ImportedInputs tx))),
      check (\<not> IsSortedAndUniqueTransferableInputs lib (ImportedInputs tx)) errInputsNotSortedUnique,
      (if IsApricotPhase2 rules then
         check (\<not> IsSortedAndUniqueEVMOutputs (Outs tx)) errOutputsNotSortedUnique
       else if IsApricotPhase1 rules then
         check (\<not> IsSortedEVMOutputs (Outs tx)) errOutputsNotSorted
       else None)]"

text \<open>The position, in that list, of the check that an error belongs to.\<close>

fun error_check_index :: "error \<Rightarrow> nat" where
  "error_check_index errNoImportInputs = 0"
| "error_check_index errWrongNetworkID = 1"
| "error_check_index errWrongBlockchainID = 2"
| "error_check_index errNoEVMOutputs = 3"
| "error_check_index errWrongChainID = 4"
| "error_check_index (Errorf_w msg err) = (if msg = ''EVM Output failed verification'' then 5 else 6)"
| "error_check_index errInputsNotSortedUnique = 7"
| "error_check_index err = 8"

text \<open>All the checks before the output sort policy pass.\<close>

definition ImportTx_earlier_checks_pass :: "Lib \<Rightarrow> UnsignedImportTx \<Rightarrow> Context \<Rightarrow> Rules \<Rightarrow> bool" where
  "ImportTx_earlier_checks_pass lib tx ctx rules =
     (first_failure (butlast (ImportTx_checks lib tx ctx rules)) = None)"


text \<open>
  The amounts an import produces (the fee for the native asset, then the outputs) and
  consumes (the inputs), and the total of an asset in such a list over the natural
  numbers. \<open>produce_all\<close> and \<open>consume_all\<close> feed a list of amounts to the checker.
\<close>

definition fee_amounts :: "Context \<Rightarrow> u64 option \<Rightarrow> (ID \<times> u64) list" where
  "fee_amounts ctx fee = (case fee of None \<Rightarrow> [] | Some txFee \<Rightarrow> [(AXCAssetID ctx, txFee)])"

definition ImportTx_produced :: "Context \<Rightarrow> u64 option \<Rightarrow> UnsignedImportTx \<Rightarrow> (ID \<times> u64) list" where
  "ImportTx_produced ctx fee tx =
     fee_amounts ctx fee @ map (\<lambda>out. (AssetID out, Amount out)) (Outs tx)"

definition ImportTx_consumed :: "UnsignedImportTx \<Rightarrow> (ID \<times> u64) list" where
  "ImportTx_consumed tx = map (\<lambda>inp. (ID (the inp), Amt (In (the inp)))) (ImportedInputs tx)"

fun total_of :: "(ID \<times> u64) list \<Rightarrow> ID \<Rightarrow> nat" where
  "total_of [] assetID = 0"
| "total_of ((k, v) # amounts) assetID = (if k = assetID then unat v else 0) + total_of amounts assetID"








section \<open>Concrete inputs\<close>

text \<open>
  A chain context, the rule sets of the tests (\<open>apricotRulesPhase0\<close> to
  \<open>apricotRulesPhase5\<close>, cumulative), and one instance of the library parameters: chains
  other than this one are peers, an EVM output needs a value, nil pointers fail the
  library's \<open>Verify\<close>, imported inputs are ordered by \<open>(TxID, OutputIndex)\<close>, EVM inputs
  by \<open>(Address, AssetID)\<close>, a byte costs one gas and a signature 1000, the base cost is
  10000 and the flat fee 1000000.
\<close>

definition test_ctx :: Context where
  "test_ctx = \<lparr>ctx_NetworkID = 5, ChainID = [12], SwapChainID = [88], AXCAssetID = [10]\<rparr>"

definition apricotRulesPhase0 :: Rules where
  "apricotRulesPhase0 = \<lparr>IsApricotPhase1 = False, IsApricotPhase2 = False,
     IsApricotPhase3 = False, IsApricotPhase5 = False\<rparr>"

definition apricotRulesPhase1 :: Rules where
  "apricotRulesPhase1 = \<lparr>IsApricotPhase1 = True, IsApricotPhase2 = False,
     IsApricotPhase3 = False, IsApricotPhase5 = False\<rparr>"

definition apricotRulesPhase2 :: Rules where
  "apricotRulesPhase2 = \<lparr>IsApricotPhase1 = True, IsApricotPhase2 = True,
     IsApricotPhase3 = False, IsApricotPhase5 = False\<rparr>"

definition apricotRulesPhase3 :: Rules where
  "apricotRulesPhase3 = \<lparr>IsApricotPhase1 = True, IsApricotPhase2 = True,
     IsApricotPhase3 = True, IsApricotPhase5 = False\<rparr>"

definition apricotRulesPhase5 :: Rules where
  "apricotRulesPhase5 = \<lparr>IsApricotPhase1 = True, IsApricotPhase2 = True,
     IsApricotPhase3 = True, IsApricotPhase5 = True\<rparr>"

definition test_input_key :: "TransferableInput option \<Rightarrow> bytes \<times> nat" where
  "test_input_key inp =
     (case inp of None \<Rightarrow> ([], 0) | Some i \<Rightarrow> (TxID (UTXOID i), unat (OutputIndex (UTXOID i))))"

text \<open>
  The fee function of this instance: the product of gas and base fee in units of \<open>10^9\<close>,
  rounded up. It is one function that passes \<open>TestImportTxGasCost\<close>; the table does not
  fix how the division rounds, and the body of \<open>calculateDynamicFee\<close> is not among the
  sources.
\<close>

definition test_dynamicFee :: "u64 \<Rightarrow> int \<Rightarrow> error + u64" where
  "test_dynamicFee gasUsed baseFee =
     (let fee = (uint gasUsed * baseFee + 999999999) div 1000000000
      in if 0 \<le> fee \<and> fee < 2 ^ 64 then Inr (word_of_int fee) else Inl errFeeOverflow)"

definition test_lib :: Lib where
  "test_lib = \<lparr>
     SameSubnet = (\<lambda>ctx chain. if chain = ChainID ctx then Some (LibError ''same chain ID'') else None),
     SameAllychain = (\<lambda>ctx chain. if chain = ChainID ctx then Some (LibError ''same chain ID'') else None),
     EVMOutput_Verify = (\<lambda>out. if Amount out = 0 then Some (LibError ''no value output'') else None),
     EVMInput_Verify = (\<lambda>inp. if Amount inp = 0 then Some (LibError ''no value input'') else None),
     TransferableInput_Verify =
       (\<lambda>inp. case inp of None \<Rightarrow> Some (LibError ''nil transferable input'') | Some i \<Rightarrow> None),
     TransferableOutput_Verify =
       (\<lambda>out. case out of None \<Rightarrow> Some (LibError ''nil transferable output'') | Some out' \<Rightarrow> None),
     IsSortedAndUniqueTransferableInputs = (\<lambda>ins. sorted_wrt (<) (map test_input_key ins)),
     IsSortedTransferableOutputs = (\<lambda>outs. True),
     IsSortedAndUniqueEVMInputs = (\<lambda>ins. sorted_wrt (<) (map (\<lambda>i. (Address i, AssetID i)) ins)),
     PlatformChainID = [0],
     calcBytesCost = (\<lambda>n. of_nat n),
     In_Cost = (\<lambda>i. Mul64 (of_nat (length (SigIndices i))) 1000),
     InputID = (\<lambda>u. TxID u @ [ucast (OutputIndex u)]),
     dynamicFee = test_dynamicFee,
     Credential_Verify =
       (\<lambda>cred. case cred of nil_secp256k1fx_Credential \<Rightarrow> Some (LibError ''nil credential'')
                | _ \<Rightarrow> None),
     PublicKeyToEthAddress = (\<lambda>pubKey. pubKey),
     CostPerSignature = 1000,
     AtomicTxBaseCost = 10000,
     AxiaAtomicTxFee = 1000000\<rparr>"

text \<open>
  The import of \<open>TestImportTxVerify\<close>: two native inputs of 10000000 from one transaction
  and outputs of 9000000 and 10000000 to two addresses, in canonical order.
\<close>

definition test_input :: "u32 \<Rightarrow> TransferableInput" where
  "test_input i = \<lparr>ID = [10], UTXOID = \<lparr>TxID = [7], OutputIndex = i\<rparr>,
     In = \<lparr>Amt = 10000000, SigIndices = [0]\<rparr>\<rparr>"

definition test_out0 :: EVMOutput where
  "test_out0 = \<lparr>Address = [1], Amount = 9000000, AssetID = [10]\<rparr>"

definition test_out1 :: EVMOutput where
  "test_out1 = \<lparr>Address = [2], Amount = 10000000, AssetID = [10]\<rparr>"

definition test_importTx :: UnsignedImportTx where
  "test_importTx = \<lparr>unsignedBytes = [0, 0, 0, 0], NetworkID = 5, BlockchainID = [12],
     SourceChain = [88], ImportedInputs = [Some (test_input 0), Some (test_input 1)],
     Outs = [test_out0, test_out1]\<rparr>"

text \<open>
  An export of the native asset to the swap chain, and one of another asset to the
  platform chain.
\<close>

definition test_evmInput :: EVMInput where
  "test_evmInput = \<lparr>Address = [1], Amount = 2000000, AssetID = [10], Nonce = 0\<rparr>"

definition test_exportedOutput :: "ID \<Rightarrow> TransferableOutput" where
  "test_exportedOutput assetID = \<lparr>ID = assetID,
     Out = \<lparr>out_Amt = 1000000, Locktime = 0, Threshold = 1, Addrs = [[3]]\<rparr>\<rparr>"

definition test_exportTx :: UnsignedExportTx where
  "test_exportTx = \<lparr>unsignedBytes = [0, 0, 0, 1], NetworkID = 5, BlockchainID = [12],
     DestinationChain = [88], Ins = [test_evmInput],
     ExportedOutputs = [Some (test_exportedOutput [10])]\<rparr>"

definition test_exportTx_platform :: UnsignedExportTx where
  "test_exportTx_platform = \<lparr>unsignedBytes = [0, 0, 0, 2], NetworkID = 5, BlockchainID = [12],
     DestinationChain = [0], Ins = [test_evmInput],
     ExportedOutputs = [Some (test_exportedOutput [11])]\<rparr>"

text \<open>
  Variants of the import as the test builds them: outputs swapped, the first output
  twice, and the swapped one on a wrong network.
\<close>

definition test_importTx_swapped :: UnsignedImportTx where
  "test_importTx_swapped = test_importTx\<lparr>Outs := [test_out1, test_out0]\<rparr>"

definition test_importTx_dup :: UnsignedImportTx where
  "test_importTx_dup = test_importTx\<lparr>Outs := [test_out0, test_out0]\<rparr>"

definition test_importTx_badnet :: UnsignedImportTx where
  "test_importTx_badnet = test_importTx_swapped\<lparr>NetworkID := 6\<rparr>"

text \<open>
  A VM that is still bootstrapping, whose key recovery returns the signature as the key
  (the test library takes a key as its own address), and signed transactions around the
  export with the given signatures in its one credential.
\<close>

definition test_vm :: "nat VM" where
  "test_vm = \<lparr>vm_ctx = test_ctx, bootstrapped = False,
     SharedMemory_Get = (\<lambda>chain keys. Inl (LibError ''not found'')),
     codec_Unmarshal = (\<lambda>bs. Inl (LibError ''garbage'')),
     fx_VerifyTransfer = (\<lambda>tx inp cred out. None),
     conflicts = (\<lambda>utxos parent. None),
     RecoverPublicKey = (\<lambda>msg sig. Inr (PublicKeySECP256K1R sig))\<rparr>"

definition test_exportStx :: "bytes list \<Rightarrow> Tx" where
  "test_exportStx sigs = \<lparr>UnsignedAtomicTx = ExportTx test_exportTx,
     Creds = [secp256k1fx_Credential sigs]\<rparr>"



text \<open>
  The import of \<open>TestImportTxSemanticVerify\<close>: one native input of 1 and one native output
  of 1; and a signed transaction around an import with the given credentials.
\<close>

definition test_importTx_1 :: UnsignedImportTx where
  "test_importTx_1 = \<lparr>unsignedBytes = [0, 0, 0, 3], NetworkID = 5, BlockchainID = [12],
     SourceChain = [88],
     ImportedInputs = [Some \<lparr>ID = [10], UTXOID = \<lparr>TxID = [9], OutputIndex = 0\<rparr>,
                              In = \<lparr>Amt = 1, SigIndices = [0]\<rparr>\<rparr>],
     Outs = [\<lparr>Address = [1], Amount = 1, AssetID = [10]\<rparr>]\<rparr>"

definition test_importStx :: "UnsignedImportTx \<Rightarrow> Credential list \<Rightarrow> Tx" where
  "test_importStx tx creds = \<lparr>UnsignedAtomicTx = ImportTx tx, Creds = creds\<rparr>"




section \<open>Checked arithmetic: facts\<close>

lemma unat_MaxUint64: "unat MaxUint64 = 2 ^ 64 - 1"
  by (simp add: MaxUint64_def)

lemma MaxUint64_top: "b \<le> MaxUint64"
  using unsigned_less [of b, where 'a=nat] by (simp add: word_le_nat_alt unat_MaxUint64)

lemma unat_MaxUint64_sub: "unat (MaxUint64 - b) = 2 ^ 64 - 1 - unat b"
  using unat_sub [OF MaxUint64_top, of b] by (simp add: unat_MaxUint64)

lemma unat_add_u64: "unat a + unat b < 2 ^ 64 \<Longrightarrow> unat (a + b :: u64) = unat a + unat b"
  using unat_add_lem [of a b] by simp

lemma unat_mult_u64: "unat a * unat b < 2 ^ 64 \<Longrightarrow> unat (a * b :: u64) = unat a * unat b"
  using unat_mult_lem [of a b] by simp

lemma unat_of_nat_u64: "n < 2 ^ 64 \<Longrightarrow> unat (of_nat n :: u64) = n"
  by (simp add: unat_of_nat)

text \<open>\<open>Add64\<close> fails exactly when the sum leaves the uint64 range, and is the sum otherwise.\<close>

lemma Add64_eq:
  "Add64 a b = (if unat a + unat b < 2 ^ 64 then Inr (a + b) else Inl math_errOverflow)"
proof -
  have b: "unat b < 2 ^ 64" using unsigned_less [of b, where 'a=nat] by simp
  have "(a > MaxUint64 - b) = (\<not> unat a + unat b < 2 ^ 64)"
    unfolding word_less_nat_alt unat_MaxUint64_sub using b by auto
  then show ?thesis by (simp add: Add64_def)
qed

text \<open>\<open>Mul64\<close> fails exactly when the product leaves the uint64 range.\<close>

lemma Mul64_eq:
  "Mul64 a b = (if unat a * unat b < 2 ^ 64 then Inr (a * b) else Inl math_errOverflow)"
proof (cases "b = 0")
  case True
  then show ?thesis by (simp add: Mul64_def)
next
  case False
  then have pos: "0 < unat b" by (simp add: unat_gt_0)
  have "unat (MaxUint64 div b) = (2 ^ 64 - 1) div unat b"
    by (simp add: unat_div unat_MaxUint64)
  then have "(a > MaxUint64 div b) = (unat a > (2 ^ 64 - 1) div unat b)"
    by (simp add: word_less_nat_alt)
  also have "\<dots> = (\<not> unat a * unat b < 2 ^ 64)"
  proof -
    have "(unat a \<le> (2 ^ 64 - 1) div unat b) = (unat a * unat b \<le> 2 ^ 64 - 1)"
      using pos by (simp add: less_eq_div_iff_mult_less_eq)
    then show ?thesis by auto
  qed
  finally show ?thesis using False by (simp add: Mul64_def)
qed

section \<open>The gas of an export\<close>

lemma gas_chain:
  fixes byteCost numSigs c base :: u64
  shows "(case Mul64 numSigs c of
         Inl err \<Rightarrow> Inl err
       | Inr sigCost \<Rightarrow>
           (case Add64 byteCost sigCost of
              Inl err \<Rightarrow> Inl err
            | Inr cost \<Rightarrow>
                if fixedFee then (case Add64 cost base of Inl err \<Rightarrow> Inl err | Inr cost' \<Rightarrow> Inr cost')
                else Inr cost)) =
     (if unat byteCost + unat numSigs * unat c + (if fixedFee then unat base else 0) < 2 ^ 64
      then Inr (of_nat (unat byteCost + unat numSigs * unat c + (if fixedFee then unat base else 0)))
      else Inl math_errOverflow)"
proof (cases "unat numSigs * unat c < 2 ^ 64")
  case False
  then show ?thesis by (simp add: Mul64_eq)
next
  case mul: True
  then have sc: "unat (numSigs * c) = unat numSigs * unat c" by (rule unat_mult_u64)
  show ?thesis
  proof (cases "unat byteCost + unat numSigs * unat c < 2 ^ 64")
    case False
    then show ?thesis using mul by (simp add: Mul64_eq Add64_eq sc)
  next
    case add: True
    then have ac: "unat (byteCost + numSigs * c) = unat byteCost + unat numSigs * unat c"
      using unat_add_u64 [of byteCost "numSigs * c"] by (simp add: sc)
    have w1: "of_nat (unat byteCost + unat numSigs * unat c) = byteCost + numSigs * c"
      by simp
    have w2: "of_nat (unat byteCost + unat numSigs * unat c + unat base) =
        byteCost + numSigs * c + base"
      by simp
    show ?thesis
      using mul add
      by (simp only: Mul64_eq Add64_eq sc ac w1 w2 if_True sum.case split: if_splits) simp
  qed
qed

text \<open>
  C8. \<open>UnsignedExportTx.GasUsed(fixedFee)\<close> is the byte cost of the unsigned bytes plus
  the number of inputs times the cost per signature, plus the fixed base cost exactly
  when \<open>fixedFee\<close> is set. Whenever that total, computed over the natural numbers, leaves
  the uint64 range, the result is the overflow error and never a wrapped value. The
  length of a Go slice fits a machine integer, which is the hypothesis.
\<close>

theorem ExportTx_GasUsed_checked:
  assumes len: "length (Ins tx) < 2 ^ 64"
  shows "ExportTx_GasUsed lib tx fixedFee =
           (if ExportTx_gas_total lib tx fixedFee < 2 ^ 64
            then Inr (of_nat (ExportTx_gas_total lib tx fixedFee))
            else Inl math_errOverflow)"
  unfolding ExportTx_GasUsed_def ExportTx_gas_total_def Let_def gas_chain
  using len by (simp only: unat_of_nat_u64)

theorem ExportTx_GasUsed_checked_witness:
  "length (Ins test_exportTx) < 2 ^ 64
   \<and> ExportTx_gas_total test_lib test_exportTx True = 11004
   \<and> ExportTx_GasUsed test_lib test_exportTx True = Inr 11004"
proof -
  have len: "length (Ins test_exportTx) < 2 ^ 64"
    by (simp add: test_exportTx_def)
  have total: "ExportTx_gas_total test_lib test_exportTx True = 11004"
    by (simp add: ExportTx_gas_total_def test_lib_def test_exportTx_def)
  show ?thesis
    using len total ExportTx_GasUsed_checked [OF len, of test_lib True] by simp
qed

section \<open>The atomic operations of an import\<close>

lemma input_IDs_eq:
  "input_IDs lib ins =
     (if None \<in> set ins then Inl (Panic ''nil TransferableInput'')
      else Inr (map (\<lambda>inp. InputID lib (UTXOID (the inp))) ins))"
  by (induction ins) (auto split: option.splits)

text \<open>
  C9. \<open>UnsignedImportTx.AtomicOps\<close> returns the source chain with a request whose remove
  list is the UTXO ID of each imported input, in the order of \<open>ImportedInputs\<close>, with no
  put request and a nil error. The only other behaviour is the panic of a nil pointer in
  the input slice; no path returns an error.
\<close>

theorem ImportTx_AtomicOps_removes_inputs:
  "ImportTx_AtomicOps lib tx =
     (if None \<in> set (ImportedInputs tx) then Inl (Panic ''nil TransferableInput'')
      else Inr (SourceChain tx,
                \<lparr>RemoveRequests = map (\<lambda>inp. InputID lib (UTXOID (the inp))) (ImportedInputs tx),
                 PutRequests = []\<rparr>,
                None))"
  by (simp add: ImportTx_AtomicOps_def input_IDs_eq)

section \<open>Exports to the platform chain\<close>

lemma verify_ExportedOutputs_native:
  assumes "verify_ExportedOutputs lib ctx dest outs = None"
    and "dest = PlatformChainID lib"
    and "out \<in> set outs"
  shows "\<exists>out'. out = Some out' \<and> ID out' = AXCAssetID ctx"
  using assms
proof (induction outs)
  case Nil
  then show ?case by simp
next
  case (Cons a outs)
  from Cons.prems(1) obtain a' where a: "a = Some a'" "ID a' = AXCAssetID ctx"
    and rest: "verify_ExportedOutputs lib ctx dest outs = None"
    using Cons.prems(2) by (auto split: option.splits if_splits)
  show ?case
  proof (cases "out = a")
    case True
    then show ?thesis using a by simp
  next
    case False
    then have "out \<in> set outs" using Cons.prems(3) by simp
    then show ?thesis using Cons.IH rest Cons.prems(2) by simp
  qed
qed

lemma ExportTx_Verify_outputs_pass:
  assumes "ExportTx_Verify lib (Some tx) ctx rules = None"
  shows "verify_ExportedOutputs lib ctx (DestinationChain tx) (ExportedOutputs tx) = None"
  using assms by (auto simp: ExportTx_Verify_def split: if_splits option.splits)

text \<open>
  C7. For an export whose destination is the platform chain, \<open>Verify\<close> fails whenever an
  exported output carries an asset other than the native one; equivalently, when
  \<open>Verify\<close> succeeds every exported output is a non-nil output of the native asset.
\<close>

theorem ExportTx_Verify_platform_native:
  assumes "DestinationChain tx = PlatformChainID lib"
  shows "(Some out \<in> set (ExportedOutputs tx) \<and> ID out \<noteq> AXCAssetID ctx
            \<longrightarrow> ExportTx_Verify lib (Some tx) ctx rules \<noteq> None)
       \<and> (ExportTx_Verify lib (Some tx) ctx rules = None
            \<longrightarrow> (\<forall>out \<in> set (ExportedOutputs tx). \<exists>out'. out = Some out' \<and> ID out' = AXCAssetID ctx))"
proof (intro conjI impI)
  assume bad: "Some out \<in> set (ExportedOutputs tx) \<and> ID out \<noteq> AXCAssetID ctx"
  show "ExportTx_Verify lib (Some tx) ctx rules \<noteq> None"
  proof
    assume "ExportTx_Verify lib (Some tx) ctx rules = None"
    then have "verify_ExportedOutputs lib ctx (DestinationChain tx) (ExportedOutputs tx) = None"
      by (rule ExportTx_Verify_outputs_pass)
    from verify_ExportedOutputs_native [OF this assms, of "Some out"] bad
    show False by simp
  qed
next
  assume "ExportTx_Verify lib (Some tx) ctx rules = None"
  then have ok: "verify_ExportedOutputs lib ctx (DestinationChain tx) (ExportedOutputs tx) = None"
    by (rule ExportTx_Verify_outputs_pass)
  show "\<forall>out \<in> set (ExportedOutputs tx). \<exists>out'. out = Some out' \<and> ID out' = AXCAssetID ctx"
    using verify_ExportedOutputs_native [OF ok assms] by blast
qed

theorem ExportTx_Verify_platform_native_witness:
  "DestinationChain test_exportTx_platform = PlatformChainID test_lib
   \<and> Some (test_exportedOutput [11]) \<in> set (ExportedOutputs test_exportTx_platform)
   \<and> ID (test_exportedOutput [11]) \<noteq> AXCAssetID test_ctx
   \<and> ExportTx_Verify test_lib (Some test_exportTx_platform) test_ctx apricotRulesPhase5 \<noteq> None"
proof -
  have dest: "DestinationChain test_exportTx_platform = PlatformChainID test_lib"
    by (simp add: test_exportTx_platform_def test_lib_def)
  have bad: "Some (test_exportedOutput [11]) \<in> set (ExportedOutputs test_exportTx_platform)
      \<and> ID (test_exportedOutput [11]) \<noteq> AXCAssetID test_ctx"
    by (simp add: test_exportTx_platform_def test_exportedOutput_def test_ctx_def)
  from ExportTx_Verify_platform_native [OF dest, of "test_exportedOutput [11]" test_ctx
      apricotRulesPhase5] bad
  have "ExportTx_Verify test_lib (Some test_exportTx_platform) test_ctx apricotRulesPhase5 \<noteq> None"
    by blast
  then show ?thesis using dest bad by simp
qed

section \<open>The order of the checks of UnsignedImportTx.Verify\<close>

lemma verify_Outs_eq:
  "verify_Outs lib outs =
     map_option (Errorf_w ''EVM Output failed verification'')
       (first_failure (map (EVMOutput_Verify lib) outs))"
  by (induction outs) (auto split: option.splits)

lemma verify_ImportedInputs_eq:
  "verify_ImportedInputs lib ins =
     map_option (Errorf_w ''atomic input failed verification'')
       (first_failure (map (TransferableInput_Verify lib) ins))"
  by (induction ins) (auto split: option.splits)

lemma first_failure_None: "(first_failure cs = None) = list_all (\<lambda>c. c = None) cs"
  by (induction cs rule: first_failure.induct) auto

lemma first_failure_Some:
  "(first_failure cs = Some err) =
     (\<exists>i < length cs. cs ! i = Some err \<and> (\<forall>j < i. cs ! j = None))"
proof (induction cs rule: first_failure.induct)
  case 1
  then show ?case by simp
next
  case (2 e checks)
  show ?case
  proof
    assume "first_failure (Some e # checks) = Some err"
    then have "e = err" by simp
    then show "\<exists>i<length (Some e # checks). (Some e # checks) ! i = Some err \<and> (\<forall>j<i. (Some e # checks) ! j = None)"
      by (intro exI [of _ 0]) simp
  next
    assume "\<exists>i<length (Some e # checks). (Some e # checks) ! i = Some err \<and> (\<forall>j<i. (Some e # checks) ! j = None)"
    then obtain i where i: "(Some e # checks) ! i = Some err" "\<forall>j<i. (Some e # checks) ! j = None"
      by blast
    have "i = 0"
    proof (rule ccontr)
      assume "i \<noteq> 0"
      then have "(Some e # checks) ! 0 = None" using i(2) by blast
      then show False by simp
    qed
    then show "first_failure (Some e # checks) = Some err" using i(1) by simp
  qed
next
  case (3 checks)
  show ?case
  proof
    assume "first_failure (None # checks) = Some err"
    then obtain i where i: "i < length checks" "checks ! i = Some err" "\<forall>j<i. checks ! j = None"
      using 3 by auto
    show "\<exists>i<length (None # checks). (None # checks) ! i = Some err \<and> (\<forall>j<i. (None # checks) ! j = None)"
    proof (intro exI [of _ "Suc i"] conjI allI impI)
      show "Suc i < length (None # checks)" using i(1) by simp
      show "(None # checks) ! Suc i = Some err" using i(2) by simp
      fix j assume "j < Suc i"
      then show "(None # checks) ! j = None" using i(3) by (cases j) auto
    qed
  next
    assume "\<exists>i<length (None # checks). (None # checks) ! i = Some err \<and> (\<forall>j<i. (None # checks) ! j = None)"
    then obtain i where i: "i < length (None # checks)" "(None # checks) ! i = Some err"
        "\<forall>j<i. (None # checks) ! j = None"
      by blast
    then obtain k where k: "i = Suc k" by (cases i) auto
    have "k < length checks" "checks ! k = Some err" using i k by auto
    moreover have "\<forall>j<k. checks ! j = None"
    proof (intro allI impI)
      fix j assume "j < k"
      then have "Suc j < i" using k by simp
      then have "(None # checks) ! Suc j = None" using i(3) by blast
      then show "checks ! j = None" by simp
    qed
    ultimately show "first_failure (None # checks) = Some err" using 3 by auto
  qed
qed

lemma ImportTx_Verify_first_failure:
  "ImportTx_Verify lib (Some tx) ctx rules = first_failure (ImportTx_checks lib tx ctx rules)"
  by (simp add: ImportTx_Verify_def ImportTx_checks_def ImportTx_peerChain_def check_def
      verify_Outs_eq verify_ImportedInputs_eq split: option.splits)

lemma ImportTx_checks_index:
  assumes "i < length (ImportTx_checks lib tx ctx rules)"
    and "ImportTx_checks lib tx ctx rules ! i = Some err"
  shows "error_check_index err = i"
  using assms
  by (auto simp: ImportTx_checks_def nth_Cons' check_def split: if_splits)

lemma check_Some: "(check failing err = Some e) = (failing \<and> e = err)"
  by (auto simp: check_def)

lemma wrapped_not_errNilTx: "map_option (Errorf_w msg) c \<noteq> Some errNilTx"
  by (cases c) simp_all

lemma ImportTx_checks_no_errNilTx:
  "Some errNilTx \<notin> set (ImportTx_checks lib tx ctx rules)"
proof
  assume "Some errNilTx \<in> set (ImportTx_checks lib tx ctx rules)"
  then obtain i where i: "i < length (ImportTx_checks lib tx ctx rules)"
      "ImportTx_checks lib tx ctx rules ! i = Some errNilTx"
    by (auto simp: in_set_conv_nth)
  then have "error_check_index errNilTx = i" by (rule ImportTx_checks_index)
  then have "i = 8" by simp
  then have "last (ImportTx_checks lib tx ctx rules) = Some errNilTx"
    using i(2) by (simp add: ImportTx_checks_def)
  then show False
    by (simp add: ImportTx_checks_def check_Some split: if_splits)
qed

text \<open>
  C2. \<open>UnsignedImportTx.Verify\<close> returns \<open>errNilTx\<close> for a nil transaction and otherwise
  the first failure of the checks in the specification's order: it returns nil exactly
  when every check passes, it returns an error exactly when that error is the result of
  a check before which every check passes, and no error is the result of two different
  checks (nor is any of them \<open>errNilTx\<close>), so that each failing check is recognised by
  its error.
\<close>

theorem ImportTx_Verify_check_order:
  "ImportTx_Verify lib None ctx rules = Some errNilTx
   \<and> ImportTx_Verify lib (Some tx) ctx rules = first_failure (ImportTx_checks lib tx ctx rules)
   \<and> (ImportTx_Verify lib (Some tx) ctx rules = None) =
       list_all (\<lambda>c. c = None) (ImportTx_checks lib tx ctx rules)
   \<and> (ImportTx_Verify lib (Some tx) ctx rules = Some err) =
       (\<exists>i < length (ImportTx_checks lib tx ctx rules).
          ImportTx_checks lib tx ctx rules ! i = Some err
          \<and> (\<forall>j < i. ImportTx_checks lib tx ctx rules ! j = None))
   \<and> (\<forall>i j e. i < j \<and> j < length (ImportTx_checks lib tx ctx rules)
          \<and> ImportTx_checks lib tx ctx rules ! i = Some e
        \<longrightarrow> ImportTx_checks lib tx ctx rules ! j \<noteq> Some e)
   \<and> Some errNilTx \<notin> set (ImportTx_checks lib tx ctx rules)"
proof (intro conjI)
  show "ImportTx_Verify lib None ctx rules = Some errNilTx"
    by (simp add: ImportTx_Verify_def)
  show "ImportTx_Verify lib (Some tx) ctx rules = first_failure (ImportTx_checks lib tx ctx rules)"
    by (rule ImportTx_Verify_first_failure)
  show "(ImportTx_Verify lib (Some tx) ctx rules = None) =
       list_all (\<lambda>c. c = None) (ImportTx_checks lib tx ctx rules)"
    by (simp only: ImportTx_Verify_first_failure first_failure_None)
  show "(ImportTx_Verify lib (Some tx) ctx rules = Some err) =
       (\<exists>i < length (ImportTx_checks lib tx ctx rules).
          ImportTx_checks lib tx ctx rules ! i = Some err
          \<and> (\<forall>j < i. ImportTx_checks lib tx ctx rules ! j = None))"
    by (simp only: ImportTx_Verify_first_failure first_failure_Some)
  show "\<forall>i j e. i < j \<and> j < length (ImportTx_checks lib tx ctx rules)
          \<and> ImportTx_checks lib tx ctx rules ! i = Some e
        \<longrightarrow> ImportTx_checks lib tx ctx rules ! j \<noteq> Some e"
  proof (intro allI impI notI)
    fix i j e
    assume a: "i < j \<and> j < length (ImportTx_checks lib tx ctx rules)
          \<and> ImportTx_checks lib tx ctx rules ! i = Some e"
      and b: "ImportTx_checks lib tx ctx rules ! j = Some e"
    have "error_check_index e = i"
      using a by (intro ImportTx_checks_index) auto
    moreover have "error_check_index e = j"
      using a b by (intro ImportTx_checks_index) auto
    ultimately show False using a by simp
  qed
  show "Some errNilTx \<notin> set (ImportTx_checks lib tx ctx rules)"
    by (rule ImportTx_checks_no_errNilTx)
qed

theorem ImportTx_Verify_check_order_witness:
  "ImportTx_checks test_lib test_importTx_badnet test_ctx apricotRulesPhase1 ! 1
     = Some errWrongNetworkID
   \<and> ImportTx_checks test_lib test_importTx_badnet test_ctx apricotRulesPhase1 ! 8
     = Some errOutputsNotSorted
   \<and> ImportTx_Verify test_lib (Some test_importTx_badnet) test_ctx apricotRulesPhase1
     = Some errWrongNetworkID
   \<and> ImportTx_Verify test_lib (Some test_importTx) test_ctx apricotRulesPhase0 = None"
proof -
  have checks: "ImportTx_checks test_lib test_importTx_badnet test_ctx apricotRulesPhase1 =
      [None, Some errWrongNetworkID, None, None, None, None, None, None,
       Some errOutputsNotSorted]"
    by (simp add: ImportTx_checks_def check_def test_lib_def test_ctx_def apricotRulesPhase1_def
        test_importTx_badnet_def test_importTx_swapped_def test_importTx_def test_input_def
        test_input_key_def test_out0_def test_out1_def EVMOutput_Less_def EVMOutput_key_def)
  have ok: "list_all (\<lambda>c. c = None)
      (ImportTx_checks test_lib test_importTx test_ctx apricotRulesPhase0)"
    by (simp add: ImportTx_checks_def check_def test_lib_def test_ctx_def apricotRulesPhase0_def
        test_importTx_def test_input_def test_input_key_def test_out0_def test_out1_def)
  note thm1 = ImportTx_Verify_check_order [of test_lib test_ctx apricotRulesPhase1
      test_importTx_badnet errWrongNetworkID]
  note thm0 = ImportTx_Verify_check_order [of test_lib test_ctx apricotRulesPhase0
      test_importTx errWrongNetworkID]
  have "ImportTx_Verify test_lib (Some test_importTx_badnet) test_ctx apricotRulesPhase1
     = Some errWrongNetworkID"
    using thm1 checks by simp
  moreover have "ImportTx_Verify test_lib (Some test_importTx) test_ctx apricotRulesPhase0 = None"
    using thm0 ok by blast
  ultimately show ?thesis using checks by simp
qed

section \<open>The output sort policy of UnsignedImportTx.Verify\<close>

lemma IsSortedEVMOutputs_sorted:
  "IsSortedEVMOutputs outs = sorted (map EVMOutput_key outs)"
proof (induction outs rule: IsSortedEVMOutputs.induct)
  case (1 a b outs)
  have "IsSortedEVMOutputs (a # b # outs) =
      (EVMOutput_key a \<le> EVMOutput_key b \<and> sorted (map EVMOutput_key (b # outs)))"
    using 1 by (simp add: EVMOutput_Less_def not_less)
  also have "\<dots> = sorted (map EVMOutput_key (a # b # outs))"
    by (simp only: list.map sorted2)
  finally show ?case .
qed simp_all

lemma IsSortedAndUniqueEVMOutputs_strict:
  "IsSortedAndUniqueEVMOutputs outs = sorted_wrt (<) (map EVMOutput_key outs)"
proof (induction outs rule: IsSortedAndUniqueEVMOutputs.induct)
  case (1 a b outs)
  have "sorted_wrt (<) (EVMOutput_key a # EVMOutput_key b # map EVMOutput_key outs) =
      (EVMOutput_key a < EVMOutput_key b \<and> sorted_wrt (<) (EVMOutput_key b # map EVMOutput_key outs))"
    by (rule sorted_wrt2) simp
  then show ?case using 1 by (simp add: EVMOutput_Less_def)
qed simp_all

lemma first_failure_snoc:
  "first_failure (cs @ [c]) = (case first_failure cs of Some err \<Rightarrow> Some err | None \<Rightarrow> c)"
proof (induction cs rule: first_failure.induct)
  case 1
  then show ?case by (cases c) simp_all
qed simp_all

lemma ImportTx_Verify_last:
  "ImportTx_Verify lib (Some tx) ctx rules =
     (case first_failure (butlast (ImportTx_checks lib tx ctx rules)) of
        Some err \<Rightarrow> Some err
      | None \<Rightarrow> last (ImportTx_checks lib tx ctx rules))"
proof -
  have ne: "ImportTx_checks lib tx ctx rules \<noteq> []" by (simp add: ImportTx_checks_def)
  have "first_failure (ImportTx_checks lib tx ctx rules) =
      first_failure (butlast (ImportTx_checks lib tx ctx rules) @ [last (ImportTx_checks lib tx ctx rules)])"
    using ne by simp
  then show ?thesis
    unfolding ImportTx_Verify_first_failure first_failure_snoc by simp
qed

lemma last_ImportTx_checks:
  "last (ImportTx_checks lib tx ctx rules) =
     (if IsApricotPhase2 rules then
         check (\<not> IsSortedAndUniqueEVMOutputs (Outs tx)) errOutputsNotSortedUnique
       else if IsApricotPhase1 rules then
         check (\<not> IsSortedEVMOutputs (Outs tx)) errOutputsNotSorted
       else None)"
  by (simp add: ImportTx_checks_def)

lemma earlier_not_sort_error:
  assumes "first_failure (butlast (ImportTx_checks lib tx ctx rules)) = Some err"
  shows "err \<noteq> errOutputsNotSorted \<and> err \<noteq> errOutputsNotSortedUnique"
proof -
  from assms obtain i where i: "i < length (butlast (ImportTx_checks lib tx ctx rules))"
    "butlast (ImportTx_checks lib tx ctx rules) ! i = Some err"
    unfolding first_failure_Some by blast
  have len: "length (ImportTx_checks lib tx ctx rules) = 9" by (simp add: ImportTx_checks_def)
  have "i < 8" using i(1) len by simp
  moreover have "ImportTx_checks lib tx ctx rules ! i = Some err"
    using i by (simp add: nth_butlast)
  ultimately have "error_check_index err = i" "i < 8"
    using ImportTx_checks_index [of i lib tx ctx rules err] len by simp_all
  then show ?thesis by auto
qed

text \<open>
  C5. The output sort policy of \<open>UnsignedImportTx.Verify\<close>, which is its last check and
  so speaks for transactions that pass the earlier ones. \<open>Verify\<close> returns the
  outputs-not-sorted error exactly when the earlier checks pass, the rules are those of
  phase 1 (phase 1 without phase 2) and \<open>Outs\<close> is not ascending by the key
  \<open>(address, assetID)\<close>, duplicates being permitted. It returns the
  outputs-not-sorted-unique error exactly when the earlier checks pass, phase 2 is active
  and \<open>Outs\<close> is not strictly ascending (sorted and free of duplicate keys). Under the
  earliest phase there is no ordering constraint: a transaction that passes the earlier
  checks passes, and replacing \<open>Outs\<close> by any list with the same elements (reordered,
  duplicated) does not change whether \<open>Verify\<close> succeeds.
\<close>

theorem ImportTx_Verify_output_sort_policy:
  "((ImportTx_Verify lib (Some tx) ctx rules = Some errOutputsNotSorted) =
      (ImportTx_earlier_checks_pass lib tx ctx rules
       \<and> IsApricotPhase1 rules \<and> \<not> IsApricotPhase2 rules
       \<and> \<not> sorted (map EVMOutput_key (Outs tx))))
   \<and> ((ImportTx_Verify lib (Some tx) ctx rules = Some errOutputsNotSortedUnique) =
      (ImportTx_earlier_checks_pass lib tx ctx rules
       \<and> IsApricotPhase2 rules
       \<and> \<not> (sorted (map EVMOutput_key (Outs tx)) \<and> distinct (map EVMOutput_key (Outs tx)))))
   \<and> (ImportTx_earlier_checks_pass lib tx ctx rules
        \<and> \<not> IsApricotPhase1 rules \<and> \<not> IsApricotPhase2 rules
        \<longrightarrow> ImportTx_Verify lib (Some tx) ctx rules = None)
   \<and> (\<not> IsApricotPhase1 rules \<and> \<not> IsApricotPhase2 rules \<and> set outs' = set (Outs tx)
        \<longrightarrow> (ImportTx_Verify lib (Some (tx\<lparr>Outs := outs'\<rparr>)) ctx rules = None) =
            (ImportTx_Verify lib (Some tx) ctx rules = None))"
proof (intro conjI)
  show "(ImportTx_Verify lib (Some tx) ctx rules = Some errOutputsNotSorted) =
      (ImportTx_earlier_checks_pass lib tx ctx rules
       \<and> IsApricotPhase1 rules \<and> \<not> IsApricotPhase2 rules
       \<and> \<not> sorted (map EVMOutput_key (Outs tx)))"
  proof (cases "first_failure (butlast (ImportTx_checks lib tx ctx rules))")
    case None
    then show ?thesis
      by (simp add: ImportTx_Verify_last last_ImportTx_checks ImportTx_earlier_checks_pass_def
          check_def IsSortedEVMOutputs_sorted)
  next
    case (Some err)
    then show ?thesis
      using earlier_not_sort_error [OF Some]
      by (simp add: ImportTx_Verify_last ImportTx_earlier_checks_pass_def)
  qed
  show "(ImportTx_Verify lib (Some tx) ctx rules = Some errOutputsNotSortedUnique) =
      (ImportTx_earlier_checks_pass lib tx ctx rules
       \<and> IsApricotPhase2 rules
       \<and> \<not> (sorted (map EVMOutput_key (Outs tx)) \<and> distinct (map EVMOutput_key (Outs tx))))"
  proof (cases "first_failure (butlast (ImportTx_checks lib tx ctx rules))")
    case None
    then show ?thesis
      by (simp add: ImportTx_Verify_last last_ImportTx_checks ImportTx_earlier_checks_pass_def
          check_def IsSortedAndUniqueEVMOutputs_strict strict_sorted_iff)
  next
    case (Some err)
    then show ?thesis
      using earlier_not_sort_error [OF Some]
      by (simp add: ImportTx_Verify_last ImportTx_earlier_checks_pass_def)
  qed
  show "ImportTx_earlier_checks_pass lib tx ctx rules
        \<and> \<not> IsApricotPhase1 rules \<and> \<not> IsApricotPhase2 rules
        \<longrightarrow> ImportTx_Verify lib (Some tx) ctx rules = None"
    by (simp add: ImportTx_Verify_last last_ImportTx_checks ImportTx_earlier_checks_pass_def)
  show "\<not> IsApricotPhase1 rules \<and> \<not> IsApricotPhase2 rules \<and> set outs' = set (Outs tx)
        \<longrightarrow> (ImportTx_Verify lib (Some (tx\<lparr>Outs := outs'\<rparr>)) ctx rules = None) =
            (ImportTx_Verify lib (Some tx) ctx rules = None)"
  proof (intro impI)
    assume a: "\<not> IsApricotPhase1 rules \<and> \<not> IsApricotPhase2 rules \<and> set outs' = set (Outs tx)"
    then have e: "(outs' = []) = (Outs tx = [])" by (metis set_empty)
    have v: "list_all (\<lambda>c. c = None) (map (EVMOutput_Verify lib) outs') =
        list_all (\<lambda>c. c = None) (map (EVMOutput_Verify lib) (Outs tx))"
      using a by (simp add: list_all_iff)
    show "(ImportTx_Verify lib (Some (tx\<lparr>Outs := outs'\<rparr>)) ctx rules = None) =
            (ImportTx_Verify lib (Some tx) ctx rules = None)"
      using a e v
      by (simp add: ImportTx_Verify_first_failure first_failure_None ImportTx_checks_def check_def)
  qed
qed

theorem ImportTx_Verify_output_sort_policy_witness:
  "ImportTx_earlier_checks_pass test_lib test_importTx_swapped test_ctx apricotRulesPhase1
   \<and> \<not> sorted (map EVMOutput_key (Outs test_importTx_swapped))
   \<and> ImportTx_Verify test_lib (Some test_importTx_swapped) test_ctx apricotRulesPhase1
       = Some errOutputsNotSorted
   \<and> sorted (map EVMOutput_key (Outs test_importTx_dup))
   \<and> ImportTx_Verify test_lib (Some test_importTx_dup) test_ctx apricotRulesPhase1
       \<noteq> Some errOutputsNotSorted
   \<and> \<not> distinct (map EVMOutput_key (Outs test_importTx_dup))
   \<and> ImportTx_Verify test_lib (Some test_importTx_dup) test_ctx apricotRulesPhase2
       = Some errOutputsNotSortedUnique
   \<and> ImportTx_Verify test_lib (Some test_importTx_swapped) test_ctx apricotRulesPhase2
       = Some errOutputsNotSortedUnique
   \<and> ImportTx_Verify test_lib (Some test_importTx_swapped) test_ctx apricotRulesPhase0 = None
   \<and> ImportTx_Verify test_lib (Some test_importTx_dup) test_ctx apricotRulesPhase0 = None
   \<and> set [test_out1, test_out0] = set (Outs test_importTx)
   \<and> ImportTx_Verify test_lib (Some test_importTx) test_ctx apricotRulesPhase0 = None"
proof -
  note defs = ImportTx_earlier_checks_pass_def ImportTx_checks_def check_def test_lib_def
    test_ctx_def test_importTx_swapped_def test_importTx_dup_def test_importTx_def
    test_input_def test_input_key_def test_out0_def test_out1_def EVMOutput_key_def
  have pre1s: "ImportTx_earlier_checks_pass test_lib test_importTx_swapped test_ctx apricotRulesPhase1"
    by (simp add: defs apricotRulesPhase1_def)
  have pre2s: "ImportTx_earlier_checks_pass test_lib test_importTx_swapped test_ctx apricotRulesPhase2"
    by (simp add: defs apricotRulesPhase2_def)
  have pre2d: "ImportTx_earlier_checks_pass test_lib test_importTx_dup test_ctx apricotRulesPhase2"
    by (simp add: defs apricotRulesPhase2_def)
  have pre0s: "ImportTx_earlier_checks_pass test_lib test_importTx_swapped test_ctx apricotRulesPhase0"
    by (simp add: defs apricotRulesPhase0_def)
  have pre0d: "ImportTx_earlier_checks_pass test_lib test_importTx_dup test_ctx apricotRulesPhase0"
    by (simp add: defs apricotRulesPhase0_def)
  have uns: "\<not> sorted (map EVMOutput_key (Outs test_importTx_swapped))"
    by (simp add: defs)
  have srt: "sorted (map EVMOutput_key (Outs test_importTx_dup))"
    by (simp add: defs)
  have dup: "\<not> distinct (map EVMOutput_key (Outs test_importTx_dup))"
    by (simp add: defs)
  have p1: "IsApricotPhase1 apricotRulesPhase1 \<and> \<not> IsApricotPhase2 apricotRulesPhase1"
    by (simp add: apricotRulesPhase1_def)
  have p2: "IsApricotPhase2 apricotRulesPhase2"
    by (simp add: apricotRulesPhase2_def)
  have p0: "\<not> IsApricotPhase1 apricotRulesPhase0 \<and> \<not> IsApricotPhase2 apricotRulesPhase0"
    by (simp add: apricotRulesPhase0_def)
  have a: "ImportTx_Verify test_lib (Some test_importTx_swapped) test_ctx apricotRulesPhase1
       = Some errOutputsNotSorted"
    using ImportTx_Verify_output_sort_policy [of test_lib test_importTx_swapped test_ctx
        apricotRulesPhase1 "[]"] pre1s uns p1 by blast
  have b: "ImportTx_Verify test_lib (Some test_importTx_dup) test_ctx apricotRulesPhase1
       \<noteq> Some errOutputsNotSorted"
    using ImportTx_Verify_output_sort_policy [of test_lib test_importTx_dup test_ctx
        apricotRulesPhase1 "[]"] srt by blast
  have c: "ImportTx_Verify test_lib (Some test_importTx_dup) test_ctx apricotRulesPhase2
       = Some errOutputsNotSortedUnique"
    using ImportTx_Verify_output_sort_policy [of test_lib test_importTx_dup test_ctx
        apricotRulesPhase2 "[]"] pre2d dup p2 by blast
  have d: "ImportTx_Verify test_lib (Some test_importTx_swapped) test_ctx apricotRulesPhase2
       = Some errOutputsNotSortedUnique"
    using ImportTx_Verify_output_sort_policy [of test_lib test_importTx_swapped test_ctx
        apricotRulesPhase2 "[]"] pre2s uns p2 by blast
  have e: "ImportTx_Verify test_lib (Some test_importTx_swapped) test_ctx apricotRulesPhase0 = None"
    using ImportTx_Verify_output_sort_policy [of test_lib test_importTx_swapped test_ctx
        apricotRulesPhase0 "[]"] pre0s p0 by blast
  have f: "ImportTx_Verify test_lib (Some test_importTx_dup) test_ctx apricotRulesPhase0 = None"
    using ImportTx_Verify_output_sort_policy [of test_lib test_importTx_dup test_ctx
        apricotRulesPhase0 "[]"] pre0d p0 by blast
  have sw: "test_importTx\<lparr>Outs := [test_out1, test_out0]\<rparr> = test_importTx_swapped"
    by (simp add: test_importTx_swapped_def)
  have st: "set [test_out1, test_out0] = set (Outs test_importTx)"
    by (auto simp: test_importTx_def)
  have g: "ImportTx_Verify test_lib (Some test_importTx) test_ctx apricotRulesPhase0 = None"
    using ImportTx_Verify_output_sort_policy [of test_lib test_importTx test_ctx
        apricotRulesPhase0 "[test_out1, test_out0]"] p0 st e
    unfolding sw by blast
  show ?thesis using pre1s uns a srt b dup c d e f st g by blast
qed

section \<open>The credentials of an export\<close>

lemma export_verify_cred_None:
  assumes "export_verify_cred lib vm tx input cred = None"
  shows "\<exists>sig pubKey. cred = secp256k1fx_Credential [sig]
           \<and> RecoverPublicKey vm (unsignedBytes tx) sig = Inr (PublicKeySECP256K1R pubKey)
           \<and> PublicKeyToEthAddress lib pubKey = Address input"
  using assms
  by (auto simp: export_verify_cred_def
      split: Credential.splits option.splits list.splits sum.splits PublicKey.splits if_splits)

lemma export_verify_creds_None:
  assumes "export_verify_creds lib vm tx ins creds = None"
    and "i < length ins"
  shows "i < length creds \<and> export_verify_cred lib vm tx (ins ! i) (creds ! i) = None"
  using assms
proof (induction ins arbitrary: creds i)
  case Nil
  then show ?case by simp
next
  case (Cons input ins)
  from Cons.prems(1) obtain cred rest where c: "creds = cred # rest"
      "export_verify_cred lib vm tx input cred = None"
      "export_verify_creds lib vm tx ins rest = None"
    by (auto split: list.splits option.splits)
  show ?case
  proof (cases i)
    case 0
    then show ?thesis using c by simp
  next
    case (Suc k)
    then have "k < length ins" using Cons.prems(2) by simp
    from Cons.IH [OF c(3) this] show ?thesis using c(1) Suc by simp
  qed
qed

lemma ExportTx_SemanticVerify_creds:
  assumes "ExportTx_SemanticVerify lib vm (Some tx) stx baseFee rules = None"
  shows "length (Ins tx) = length (Creds stx)
       \<and> export_verify_creds lib vm tx (Ins tx) (Creds stx) = None"
  using assms
  by (auto simp: ExportTx_SemanticVerify_def split: option.splits sum.splits if_splits)

text \<open>
  C10. \<open>UnsignedExportTx.SemanticVerify\<close> fails unless there is one credential per input
  and the credential of every input is a secp256k1 credential with exactly one signature
  whose recovered public key is a secp256k1 key with the address of that input. So a
  credential with no signature, or with two or more, is rejected even when the
  structural \<open>Verify\<close> passes.
\<close>

theorem ExportTx_SemanticVerify_one_signature:
  assumes ok: "ExportTx_SemanticVerify lib vm (Some tx) stx baseFee rules = None"
  shows "length (Creds stx) = length (Ins tx)
       \<and> (\<forall>i < length (Ins tx). \<exists>sig pubKey.
             Creds stx ! i = secp256k1fx_Credential [sig]
             \<and> RecoverPublicKey vm (unsignedBytes tx) sig = Inr (PublicKeySECP256K1R pubKey)
             \<and> PublicKeyToEthAddress lib pubKey = Address (Ins tx ! i))"
proof (intro conjI allI impI)
  from ExportTx_SemanticVerify_creds [OF ok]
  have len: "length (Ins tx) = length (Creds stx)"
    and creds: "export_verify_creds lib vm tx (Ins tx) (Creds stx) = None"
    by simp_all
  show "length (Creds stx) = length (Ins tx)" using len by simp
  fix i assume "i < length (Ins tx)"
  from export_verify_creds_None [OF creds this]
  have "export_verify_cred lib vm tx (Ins tx ! i) (Creds stx ! i) = None" by simp
  then show "\<exists>sig pubKey.
             Creds stx ! i = secp256k1fx_Credential [sig]
             \<and> RecoverPublicKey vm (unsignedBytes tx) sig = Inr (PublicKeySECP256K1R pubKey)
             \<and> PublicKeyToEthAddress lib pubKey = Address (Ins tx ! i)"
    by (rule export_verify_cred_None)
qed

lemmas export_test_defs = test_lib_def test_ctx_def test_vm_def test_exportStx_def
  test_exportTx_def test_evmInput_def test_exportedOutput_def apricotRulesPhase0_def

lemmas flow_defs = NewFlowChecker_def Produce_def Consume_def fc_add_def Add64_def MaxUint64_def
  amount_of_def errs_Add_def FlowChecker_Verify_def

theorem ExportTx_SemanticVerify_one_signature_witness:
  "ExportTx_SemanticVerify test_lib test_vm (Some test_exportTx) (test_exportStx [[1]]) 0
     apricotRulesPhase0 = None
   \<and> length (Creds (test_exportStx [[1]])) = length (Ins test_exportTx)
   \<and> ExportTx_Verify test_lib (Some test_exportTx) test_ctx apricotRulesPhase0 = None
   \<and> ExportTx_SemanticVerify test_lib test_vm (Some test_exportTx) (test_exportStx []) 0
        apricotRulesPhase0 \<noteq> None
   \<and> ExportTx_SemanticVerify test_lib test_vm (Some test_exportTx) (test_exportStx [[1], [1]]) 0
        apricotRulesPhase0 \<noteq> None"
proof -
  have ok: "ExportTx_SemanticVerify test_lib test_vm (Some test_exportTx) (test_exportStx [[1]]) 0
      apricotRulesPhase0 = None"
    by (simp add: ExportTx_SemanticVerify_def ExportTx_Verify_def ExportTx_peerChain_def
        export_produce_fee_def export_verify_cred_def flow_defs export_test_defs)
  have len: "length (Creds (test_exportStx [[1]])) = length (Ins test_exportTx)"
    using ExportTx_SemanticVerify_one_signature [OF ok] by blast
  have str: "ExportTx_Verify test_lib (Some test_exportTx) test_ctx apricotRulesPhase0 = None"
    by (simp add: ExportTx_Verify_def ExportTx_peerChain_def export_test_defs)
  have none: "ExportTx_SemanticVerify test_lib test_vm (Some test_exportTx) (test_exportStx []) 0
      apricotRulesPhase0 \<noteq> None"
  proof
    assume "ExportTx_SemanticVerify test_lib test_vm (Some test_exportTx) (test_exportStx []) 0
      apricotRulesPhase0 = None"
    from ExportTx_SemanticVerify_one_signature [OF this]
    have "\<exists>sig. Creds (test_exportStx []) ! 0 = secp256k1fx_Credential [sig]"
      by (auto simp: test_exportTx_def)
    then show False by (simp add: test_exportStx_def)
  qed
  have two: "ExportTx_SemanticVerify test_lib test_vm (Some test_exportTx)
      (test_exportStx [[1], [1]]) 0 apricotRulesPhase0 \<noteq> None"
  proof
    assume "ExportTx_SemanticVerify test_lib test_vm (Some test_exportTx)
      (test_exportStx [[1], [1]]) 0 apricotRulesPhase0 = None"
    from ExportTx_SemanticVerify_one_signature [OF this]
    have "\<exists>sig. Creds (test_exportStx [[1], [1]]) ! 0 = secp256k1fx_Credential [sig]"
      by (auto simp: test_exportTx_def)
    then show False by (simp add: test_exportStx_def)
  qed
  show ?thesis using ok len str none two by blast
qed

section \<open>The state transfer of an export\<close>

lemma nonce_SubBalance: "nonce (SubBalance state addr amount) = nonce state"
  by (simp add: SubBalance_def)

lemma nonce_SubBalanceMultiCoin:
  "nonce (SubBalanceMultiCoin state addr coinID amount) = nonce state"
  by (simp add: SubBalanceMultiCoin_def)

lemma set_nonces_one: "set_nonces [addr \<mapsto> n] state = SetNonce state addr (n + 1)"
proof -
  have "(\<lambda>a. case [addr \<mapsto> n] a of None \<Rightarrow> nonce state a | Some m \<Rightarrow> m + 1) =
      (nonce state)(addr := n + 1)"
    by (rule ext) simp
  then show ?thesis by (simp add: set_nonces_def SetNonce_def)
qed

lemma export_debit_Inr:
  assumes "export_debit ctx from state = Inr state'"
  shows "nonce state' = nonce state"
  using assms
  by (auto simp: export_debit_def Let_def nonce_SubBalance nonce_SubBalanceMultiCoin
      split: if_splits)

lemma export_debit_Inl:
  assumes "export_debit ctx from state = Inl err"
  shows "err = errInsufficientFunds"
  using assms by (auto simp: export_debit_def Let_def split: if_splits)

lemma export_transfer_loop_step:
  assumes "export_debit ctx from state = Inr state'"
    and "GetNonce state' (Address from) = Nonce from"
  shows "export_transfer_loop ctx (from # ins) state addrs =
           export_transfer_loop ctx ins state' (addrs(Address from \<mapsto> Nonce from))"
  using assms by simp

lemma export_transfer_loop_nonce:
  "nonce (fst (snd (export_transfer_loop ctx ins state addrs))) = nonce state"
proof (induction ins arbitrary: state addrs)
  case Nil
  then show ?case by simp
next
  case (Cons "from" ins)
  show ?case
  proof (cases "export_debit ctx from state")
    case (Inl err)
    then show ?thesis by simp
  next
    case (Inr state')
    have n: "nonce state' = nonce state" using Inr by (rule export_debit_Inr)
    show ?thesis
    proof (cases "GetNonce state' (Address from) = Nonce from")
      case True
      show ?thesis
        unfolding export_transfer_loop_step [OF Inr True] Cons.IH by (rule n)
    next
      case False
      then show ?thesis using Inr n by simp
    qed
  qed
qed

lemma export_transfer_loop_stale:
  assumes "\<exists>from \<in> set ins. Nonce from \<noteq> GetNonce state (Address from)"
  shows "fst (export_transfer_loop ctx ins state addrs) = Some errInvalidNonce
       \<or> fst (export_transfer_loop ctx ins state addrs) = Some errInsufficientFunds"
  using assms
proof (induction ins arbitrary: state addrs)
  case Nil
  then show ?case by simp
next
  case (Cons "from" ins)
  show ?case
  proof (cases "export_debit ctx from state")
    case (Inl err)
    then show ?thesis using export_debit_Inl [OF Inl] by simp
  next
    case (Inr state')
    have n: "nonce state' = nonce state" using Inr by (rule export_debit_Inr)
    show ?thesis
    proof (cases "GetNonce state' (Address from) = Nonce from")
      case False
      then show ?thesis using Inr by simp
    next
      case True
      then have "Nonce from = GetNonce state (Address from)" using n by (simp add: GetNonce_def)
      with Cons.prems have "\<exists>f \<in> set ins. Nonce f \<noteq> GetNonce state' (Address f)"
        using n by (auto simp: GetNonce_def)
      then show ?thesis
        unfolding export_transfer_loop_step [OF Inr True] by (rule Cons.IH)
    qed
  qed
qed

lemma export_transfer_loop_invalid_nonce:
  assumes "fst (export_transfer_loop ctx ins state addrs) = Some errInvalidNonce"
  shows "\<exists>from \<in> set ins. Nonce from \<noteq> GetNonce state (Address from)"
  using assms
proof (induction ins arbitrary: state addrs)
  case Nil
  then show ?case by simp
next
  case (Cons "from" ins)
  show ?case
  proof (cases "export_debit ctx from state")
    case (Inl err)
    then show ?thesis using export_debit_Inl [OF Inl] Cons.prems by simp
  next
    case (Inr state')
    have n: "nonce state' = nonce state" using Inr by (rule export_debit_Inr)
    show ?thesis
    proof (cases "GetNonce state' (Address from) = Nonce from")
      case False
      then show ?thesis using n by (auto simp: GetNonce_def)
    next
      case True
      have "fst (export_transfer_loop ctx ins state' (addrs(Address from \<mapsto> Nonce from)))
          = Some errInvalidNonce"
        using Cons.prems unfolding export_transfer_loop_step [OF Inr True] .
      from Cons.IH [OF this] show ?thesis using n by (auto simp: GetNonce_def)
    qed
  qed
qed

lemma ExportTx_EVMStateTransfer_fst:
  "fst (ExportTx_EVMStateTransfer tx ctx state) =
     fst (export_transfer_loop ctx (Ins tx) state Map.empty)"
  by (cases "export_transfer_loop ctx (Ins tx) state Map.empty")
     (auto simp: ExportTx_EVMStateTransfer_def split: option.splits)

lemma ExportTx_EVMStateTransfer_failed_state:
  assumes "fst (ExportTx_EVMStateTransfer tx ctx state) = Some err"
  shows "snd (ExportTx_EVMStateTransfer tx ctx state) =
     fst (snd (export_transfer_loop ctx (Ins tx) state Map.empty))"
  using assms
  by (cases "export_transfer_loop ctx (Ins tx) state Map.empty")
     (auto simp: ExportTx_EVMStateTransfer_def split: option.splits)

lemma ExportTx_EVMStateTransfer_stale_fails:
  "((\<exists>from \<in> set (Ins tx). Nonce from \<noteq> GetNonce state (Address from))
      \<longrightarrow> (fst (ExportTx_EVMStateTransfer tx ctx state) = Some errInvalidNonce
           \<or> fst (ExportTx_EVMStateTransfer tx ctx state) = Some errInsufficientFunds)
          \<and> nonce (snd (ExportTx_EVMStateTransfer tx ctx state)) = nonce state)
   \<and> (fst (ExportTx_EVMStateTransfer tx ctx state) = Some errInvalidNonce
      \<longrightarrow> (\<exists>from \<in> set (Ins tx). Nonce from \<noteq> GetNonce state (Address from)))"
proof (intro conjI impI)
  assume stale: "\<exists>from \<in> set (Ins tx). Nonce from \<noteq> GetNonce state (Address from)"
  from export_transfer_loop_stale [OF stale, of ctx Map.empty]
  show err: "fst (ExportTx_EVMStateTransfer tx ctx state) = Some errInvalidNonce
           \<or> fst (ExportTx_EVMStateTransfer tx ctx state) = Some errInsufficientFunds"
    by (simp add: ExportTx_EVMStateTransfer_fst)
  then obtain e where "fst (ExportTx_EVMStateTransfer tx ctx state) = Some e" by blast
  then show "nonce (snd (ExportTx_EVMStateTransfer tx ctx state)) = nonce state"
    by (simp add: ExportTx_EVMStateTransfer_failed_state export_transfer_loop_nonce)
next
  assume "fst (ExportTx_EVMStateTransfer tx ctx state) = Some errInvalidNonce"
  then show "\<exists>from \<in> set (Ins tx). Nonce from \<noteq> GetNonce state (Address from)"
    by (simp add: ExportTx_EVMStateTransfer_fst export_transfer_loop_invalid_nonce)
qed















section \<open>The dynamic fee: facts\<close>




section \<open>The flow checker: facts\<close>










section \<open>The semantic verification of an import\<close>








lemma ImportTx_SemanticVerify_after_Verify:
  assumes "ImportTx_Verify lib (Some tx) (vm_ctx vm) rules = None"
  shows "ImportTx_SemanticVerify lib vm (Some tx) stx parent baseFee rules =
     (case ImportTx_flow lib (vm_ctx vm) tx stx baseFee rules of
        Inl err \<Rightarrow> Some err
      | Inr fc \<Rightarrow>
          (case FlowChecker_Verify fc of
             Some err \<Rightarrow> Some (Errorf_w ''import tx flow check failed due to'' err)
           | None \<Rightarrow>
               if length (Creds stx) \<noteq> length (ImportedInputs tx) then
                 Some (Errorf ''import tx contained mismatched number of inputs/credentials'')
               else if \<not> bootstrapped vm then None
               else import_verify_shared lib vm tx stx parent))"
  using assms by (simp add: ImportTx_SemanticVerify_def)

lemma ImportTx_SemanticVerify_None_Verify:
  assumes "ImportTx_SemanticVerify lib vm txp stx parent baseFee rules = None"
  shows "ImportTx_Verify lib txp (vm_ctx vm) rules = None"
  using assms by (auto simp: ImportTx_SemanticVerify_def split: option.splits)


text \<open>
  C6, as amended. On a node that has not finished bootstrapping, \<open>SemanticVerify\<close>
  returns nil exactly when the structural \<open>Verify\<close> passes, the flow is built without
  error and its check passes, and there is one credential per imported input. The
  shared-memory lookup, the decoding and the asset and credential verification of the
  UTXOs, and the conflict check are skipped: the result does not depend on them.
\<close>

theorem ImportTx_SemanticVerify_bootstrapping:
  assumes boot: "\<not> bootstrapped vm"
  shows "(ImportTx_SemanticVerify lib vm (Some tx) stx parent baseFee rules = None) =
           (ImportTx_Verify lib (Some tx) (vm_ctx vm) rules = None
            \<and> (\<exists>fc. ImportTx_flow lib (vm_ctx vm) tx stx baseFee rules = Inr fc
                  \<and> FlowChecker_Verify fc = None)
            \<and> length (Creds stx) = length (ImportedInputs tx))
       \<and> ImportTx_SemanticVerify lib
            (vm\<lparr>SharedMemory_Get := get, codec_Unmarshal := unmarshal,
                fx_VerifyTransfer := verifyTransfer, conflicts := conflictCheck\<rparr>)
            txp stx parent baseFee rules =
          ImportTx_SemanticVerify lib vm txp stx parent baseFee rules"
proof (intro conjI)
  show "(ImportTx_SemanticVerify lib vm (Some tx) stx parent baseFee rules = None) =
           (ImportTx_Verify lib (Some tx) (vm_ctx vm) rules = None
            \<and> (\<exists>fc. ImportTx_flow lib (vm_ctx vm) tx stx baseFee rules = Inr fc
                  \<and> FlowChecker_Verify fc = None)
            \<and> length (Creds stx) = length (ImportedInputs tx))"
  proof (cases "ImportTx_Verify lib (Some tx) (vm_ctx vm) rules")
    case None
    show ?thesis
      unfolding ImportTx_SemanticVerify_after_Verify [OF None]
      using boot None by (auto split: sum.splits option.splits)
  next
    case (Some e)
    then show ?thesis by (simp add: ImportTx_SemanticVerify_def)
  qed
  show "ImportTx_SemanticVerify lib
            (vm\<lparr>SharedMemory_Get := get, codec_Unmarshal := unmarshal,
                fx_VerifyTransfer := verifyTransfer, conflicts := conflictCheck\<rparr>)
            txp stx parent baseFee rules =
          ImportTx_SemanticVerify lib vm txp stx parent baseFee rules"
    using boot
    by (simp add: ImportTx_SemanticVerify_def split: option.splits sum.splits)
qed

lemmas import_test_defs = test_lib_def test_ctx_def test_vm_def test_importStx_def
  test_importTx_def test_importTx_1_def test_input_def test_input_key_def test_out0_def
  test_out1_def apricotRulesPhase0_def apricotRulesPhase2_def

lemmas import_defs = ImportTx_SemanticVerify_def ImportTx_Verify_def ImportTx_peerChain_def
  ImportTx_flow_def import_produce_fee_def EVMOutput_Less_def EVMOutput_key_def

text \<open>
  Before phase 2 the fee is zero: under the rules of phase 0 the import of 1 for 1 passes
  \<open>SemanticVerify\<close>, whereas with the flat fee of phase 2 the native asset would have
  1000001 produced against 1 consumed.
\<close>

lemma ImportTx_SemanticVerify_phase0_zero_fee:
  "\<not> IsApricotPhase3 apricotRulesPhase0
   \<and> ImportTx_SemanticVerify test_lib test_vm (Some test_importTx_1)
        (test_importStx test_importTx_1 [secp256k1fx_Credential [[1]]]) 0 0 apricotRulesPhase0 = None
   \<and> total_of (ImportTx_consumed test_importTx_1) [10] = 1
   \<and> total_of (ImportTx_produced test_ctx (Some (AxiaAtomicTxFee test_lib)) test_importTx_1) [10]
       = 1000001"
  by (simp add: import_defs flow_defs import_test_defs ImportTx_consumed_def ImportTx_produced_def
      fee_amounts_def)


text \<open>
  The claim C6 as stated fails: on a bootstrapping node the import of the test passes the
  structural and the flow checks, and with no credential it is still rejected, by the
  credential count that stands between the flow check and the bootstrapping exit.
\<close>

theorem ImportTx_SemanticVerify_bootstrapping_counterexample:
  "\<not> bootstrapped test_vm
   \<and> ImportTx_Verify test_lib (Some test_importTx) (vm_ctx test_vm) apricotRulesPhase0 = None
   \<and> (case ImportTx_flow test_lib (vm_ctx test_vm) test_importTx (test_importStx test_importTx []) 0
              apricotRulesPhase0 of
         Inl err \<Rightarrow> False
       | Inr fc \<Rightarrow> FlowChecker_Verify fc = None)
   \<and> ImportTx_SemanticVerify test_lib test_vm (Some test_importTx)
        (test_importStx test_importTx []) 0 0 apricotRulesPhase0 =
      Some (Errorf ''import tx contained mismatched number of inputs/credentials'')"
  by (simp add: import_defs flow_defs import_test_defs)

theorem ImportTx_SemanticVerify_bootstrapping_witness:
  "\<not> bootstrapped test_vm
   \<and> ImportTx_Verify test_lib (Some test_importTx) (vm_ctx test_vm) apricotRulesPhase0 = None
   \<and> length (Creds (test_importStx test_importTx
        [secp256k1fx_Credential [[1]], secp256k1fx_Credential [[1]]]))
       = length (ImportedInputs test_importTx)
   \<and> ImportTx_SemanticVerify test_lib test_vm (Some test_importTx)
        (test_importStx test_importTx [secp256k1fx_Credential [[1]], secp256k1fx_Credential [[1]]])
        0 0 apricotRulesPhase0 = None"
proof -
  have boot: "\<not> bootstrapped test_vm" by (simp add: test_vm_def)
  have v: "ImportTx_Verify test_lib (Some test_importTx) (vm_ctx test_vm) apricotRulesPhase0 = None"
    by (simp add: import_defs import_test_defs)
  have flow: "\<exists>fc. ImportTx_flow test_lib (vm_ctx test_vm) test_importTx
        (test_importStx test_importTx [secp256k1fx_Credential [[1]], secp256k1fx_Credential [[1]]])
        0 apricotRulesPhase0 = Inr fc \<and> FlowChecker_Verify fc = None"
    by (simp add: import_defs flow_defs import_test_defs)
  have len: "length (Creds (test_importStx test_importTx
        [secp256k1fx_Credential [[1]], secp256k1fx_Credential [[1]]]))
       = length (ImportedInputs test_importTx)"
    by (simp add: test_importStx_def test_importTx_def)
  from ImportTx_SemanticVerify_bootstrapping [OF boot, of test_lib test_importTx
      "test_importStx test_importTx [secp256k1fx_Credential [[1]], secp256k1fx_Credential [[1]]]"
      0 0 apricotRulesPhase0] v flow len
  have "ImportTx_SemanticVerify test_lib test_vm (Some test_importTx)
        (test_importStx test_importTx [secp256k1fx_Credential [[1]], secp256k1fx_Credential [[1]]])
        0 0 apricotRulesPhase0 = None"
    by blast
  then show ?thesis using boot v len by blast
qed

end
